theory Spec2Isabelle
  imports Main
begin

section \<open>Faults and effectful calls\<close>

text \<open>
  A Go panic is a value that unwinds the calling goroutine's stack. Every call that can
  panic returns \<open>Inl\<close> of the panic value or \<open>Inr\<close> of its result, together with the
  state it leaves behind. \<open>andThen\<close> is sequencing of two statements: the second one does
  not run when the first one panics.
\<close>

type_synonym fault = string

type_synonym ('a, 'w) prog = "'w \<Rightarrow> (fault + 'a) \<times> 'w"

definition ret :: "'a \<Rightarrow> ('a, 'w) prog" where
  "ret x w = (Inr x, w)"

definition panic :: "fault \<Rightarrow> ('a, 'w) prog" where
  "panic e w = (Inl e, w)"

definition andThen :: "('a, 'w) prog \<Rightarrow> ('a \<Rightarrow> ('b, 'w) prog) \<Rightarrow> ('b, 'w) prog" where
  "andThen m k w = (case m w of (Inl e, w') \<Rightarrow> (Inl e, w') | (Inr x, w') \<Rightarrow> k x w')"

fun raised :: "fault + 'a \<Rightarrow> fault option" where
  "raised (Inl e) = Some e"
| "raised (Inr _) = None"

section \<open>middleware.go\<close>

subsection \<open>Requests, response writers and the handlers' world\<close>

text \<open>
  A handler gets the request as a pointer, \<open>r *http.Request\<close>: the request is an object in
  the heap, at the address \<open>r\<close>, and any handler may change it. Of that object the
  middleware reads \<open>r.Method\<close> and \<open>r.URL.Path\<close>, each time it needs them. A response writer
  is an object at some address too; its dynamic type either implements
  \<open>negroni.ResponseWriter\<close> (which has the method \<open>Status()\<close>) or is a plain
  \<open>http.ResponseWriter\<close>. The status a \<open>negroni.ResponseWriter\<close> has recorded is mutable
  state of that object.
\<close>

record Request =
  Method :: string
  Path :: string

datatype ResponseWriter = HttpWriter nat | NegroniWriter nat

record 'a heap =
  status :: "nat \<Rightarrow> int"
  request :: "nat \<Rightarrow> Request"
  user :: 'a

text \<open>
  A callback or handler is code the package does not own. It may change the heap in any
  way, takes some time on the monotonic clock (in nanoseconds, never negative), and
  returns or panics.
\<close>

type_synonym ('b, 'a) effect = "'a heap \<Rightarrow> (fault + 'b) \<times> 'a heap \<times> nat"

type_synonym 'a HandlerFunc = "ResponseWriter \<Rightarrow> nat \<Rightarrow> (unit, 'a) effect"

text \<open>
  The calls the two middleware units make, with their arguments, and the trace of
  a request: each call is entered (\<open>Invoke\<close>) and left (\<open>Finish\<close>, with the panic
  value if it panicked).
\<close>

datatype call =
    PreLog string string int
  | Next ResponseWriter nat
  | PostLog string string int int
  | Recover ResponseWriter nat

datatype mevent = Invoke call | Finish call "fault option"

record 'a world =
  clock :: int
  trace :: "mevent list"
  heap :: "'a heap"

definition invoke :: "call \<Rightarrow> ('b, 'a) effect \<Rightarrow> ('b, 'a world) prog" where
  "invoke c f w =
     (case f (heap w) of (res, h, dt) \<Rightarrow>
        (res, \<lparr>clock = clock w + int dt,
               trace = trace w @ [Invoke c, Finish c (raised res)],
               heap = h\<rparr>))"



subsection \<open>The middleware units\<close>

text \<open>
  \<open>recoverFunc\<close> is the function that \<open>ServeHTTP\<close> defers. As the deferred function
  itself, it is the one frame in which Go's \<open>recover()\<close> has an effect: its extra argument
  here is what \<open>recover()\<close> would return (the panic in flight, if any), and its Boolean
  result says whether it called \<open>recover()\<close>. A nil function is \<open>None\<close>.
\<close>

record 'a recoveryMiddleware =
  recoverFunc :: "(ResponseWriter \<Rightarrow> nat \<Rightarrow> fault option \<Rightarrow> (bool, 'a) effect) option"


definition RecoveryMiddleware ::
  "(ResponseWriter \<Rightarrow> nat \<Rightarrow> fault option \<Rightarrow> (bool, 'a) effect) option \<Rightarrow> 'a recoveryMiddleware" where
  "RecoveryMiddleware f = \<lparr>recoverFunc = f\<rparr>"


text \<open>
  Leaving a function runs its deferred call, whether the body returned or panicked.
  If the deferred call panics, that panic replaces the one in flight; if it returns after
  calling \<open>recover()\<close>, the function returns normally; otherwise the body's outcome stands.
\<close>

definition run_deferred ::
  "(call \<times> (fault option \<Rightarrow> (bool, 'a) effect)) option \<Rightarrow> fault + unit \<Rightarrow> (unit, 'a world) prog" where
  "run_deferred d res w =
     (case d of
        None \<Rightarrow> (res, w)
      | Some (c, f) \<Rightarrow>
          (case invoke c (f (raised res)) w of
             (Inl e, w') \<Rightarrow> (Inl e, w')
           | (Inr recovered, w') \<Rightarrow> (if recovered then Inr () else res, w')))"

definition recoveryMiddleware_ServeHTTP ::
  "'a recoveryMiddleware \<Rightarrow> ResponseWriter \<Rightarrow> nat \<Rightarrow> 'a HandlerFunc \<Rightarrow> (unit, 'a world) prog" where
  "recoveryMiddleware_ServeHTTP rec rw r next w =
     (let deferred = (case recoverFunc rec of
                        Some f \<Rightarrow> Some (Recover rw r, f rw r)
                      | None \<Rightarrow> None)
      in case invoke (Next rw r) (next rw r) w of
           (res, w') \<Rightarrow> run_deferred deferred res w')"




section \<open>app.go\<close>

subsection \<open>Data\<close>

text \<open>
  \<open>Port\<close> and \<open>TLSPort\<close> are Go \<open>int\<close>s that the code only compares with zero and prints;
  the three \<open>time.Duration\<close>s are nanosecond counts that it only copies.
\<close>

record ServerConfig =
  Host :: string
  Port :: int
  GracefulTimeout :: int
  ReadTimeout :: int
  WriteTimeout :: int
  TLSPort :: int
  TLSCertFile :: string
  TLSPrivateKeyFile :: string

text \<open>
  The callback interface. The application is an object with state of its own (\<open>'s\<close>):
  each method gets that state, returns or panics, and leaves a new state.
  \<open>ConfigureRoutes\<close> gets a pointer to the router and registers handlers on it, so it
  returns the router as it has left it. \<open>'c\<close> is \<open>Config\<close>, \<open>'r\<close> is \<open>mux.Router\<close>,
  \<open>'m\<close> is \<open>negroni.Handler\<close>.
\<close>

record ('c, 'r, 'm, 's) Gapp =
  LoadConfig :: "'s \<Rightarrow> (fault + 'c) \<times> 's"
  ConfigureLogging :: "'c \<Rightarrow> 's \<Rightarrow> (fault + unit) \<times> 's"
  InitResources :: "'c \<Rightarrow> 's \<Rightarrow> (fault + unit) \<times> 's"
  ConfigureRoutes :: "'r \<Rightarrow> 'c \<Rightarrow> 's \<Rightarrow> (fault + 'r) \<times> 's"
  SetMiddleware :: "'c \<Rightarrow> 's \<Rightarrow> (fault + 'm list) \<times> 's"
  GetServerConf :: "'c \<Rightarrow> 's \<Rightarrow> (fault + ServerConfig) \<times> 's"
  HandleStart :: "string \<Rightarrow> int \<Rightarrow> int \<Rightarrow> 's \<Rightarrow> (fault + unit) \<times> 's"
  HandleStopped :: "'s \<Rightarrow> (fault + unit) \<times> 's"

subsection \<open>The libraries\<close>

text \<open>
  Modelled from the spec: negroni, the middleware-chain builder, is an external
  collaborator that accepts an ordered list of middleware units plus a final handler and
  produces one composed handler, the units wrapping the final handler in the order
  supplied (first supplied is outermost). The composed handler is the list of its
  layers from the outermost to the innermost: \<open>negroni.New(hs...)\<close> starts it with the
  units given, \<open>n.UseHandler(h)\<close> wraps the plain handler \<open>h\<close> as a unit and adds it as the
  innermost layer.
\<close>

datatype ('m, 'r) layer = Unit 'm | Wrap 'r

type_synonym ('m, 'r) Negroni = "('m, 'r) layer list"

definition negroni_New :: "'m list \<Rightarrow> ('m, 'r) Negroni" where
  "negroni_New hs = map Unit hs"

definition negroni_UseHandler :: "('m, 'r) Negroni \<Rightarrow> 'r \<Rightarrow> ('m, 'r) Negroni" where
  "negroni_UseHandler n h = n @ [Wrap h]"

text \<open>\<open>strconv.Itoa\<close>: the decimal digits of an integer.\<close>

definition digit :: "nat \<Rightarrow> char" where
  "digit d = ''0123456789'' ! d"

function decimal :: "nat \<Rightarrow> string" where
  "decimal n = (if n < 10 then [digit n] else decimal (n div 10) @ [digit (n mod 10)])"
  by pat_completeness auto
termination
  by (relation "measure id") auto

definition strconv_Itoa :: "int \<Rightarrow> string" where
  "strconv_Itoa i = (if i < 0 then CHR ''-'' # decimal (nat (- i)) else decimal (nat i))"

text \<open>
  A \<open>graceful.Server\<close> around an \<open>http.Server\<close>, with the fields that \<open>Run\<close> sets.
\<close>

record ('m, 'r) Server =
  srv_Timeout :: int
  srv_Addr :: string
  srv_Handler :: "('m, 'r) Negroni"
  srv_WriteTimeout :: int
  srv_ReadTimeout :: int

text \<open>
  What the package takes from outside: the empty router that \<open>mux.NewRouter()\<close> makes, and
  what the requests a listener has served have done to the application's state by the
  time its \<open>ListenAndServe\<close> returns.
\<close>

datatype scheme = HTTP | TLS

record ('r, 's) platform =
  mux_NewRouter :: 'r
  serving :: "scheme \<Rightarrow> 's \<Rightarrow> 's"

text \<open>The package-level variables of \<open>app.go\<close>: \<open>var doRunFunc = graceful.Run\<close>.\<close>

record 'd package =
  doRunFunc :: 'd

subsection \<open>The state of a run\<close>

text \<open>
  The trace of a run: every call of a lifecycle callback with its arguments, and how it
  ended (the value it returned or the panic it raised); every \<open>go\<close> statement; in each
  listener goroutine the call of \<open>ListenAndServe\<close> or \<open>ListenAndServeTLS\<close> (with the server
  and, for TLS, the certificate and key files), its return, and the deferred \<open>wg.Done()\<close>,
  which is the last thing the goroutine does; and the return of \<open>wg.Wait()\<close>.
\<close>

datatype ('c, 'r) lifecycle =
    OnLoadConfig
  | OnConfigureLogging 'c
  | OnInitResources 'c
  | OnConfigureRoutes 'r 'c
  | OnSetMiddleware 'c
  | OnGetServerConf 'c
  | OnHandleStart string int int
  | OnHandleStopped

datatype ('c, 'r, 'm) retval =
    Nothing
  | Config 'c
  | Router 'r
  | Units "'m list"
  | Conf ServerConfig

datatype ('c, 'r, 'm) event =
    Call "('c, 'r) lifecycle"
  | Return "('c, 'r) lifecycle" "('c, 'r, 'm) retval"
  | Panics "('c, 'r) lifecycle" fault
  | Go scheme
  | Listen scheme "('m, 'r) Server" "(string \<times> string) option"
  | ListenReturned scheme
  | Done scheme
  | WaitReturned

text \<open>
  Where the main goroutine is in \<open>Run\<close>, and where a listener goroutine is in its body.
  A goroutine that was never started is \<open>Absent\<close>.
\<close>

datatype pc = Startup | SpawnHTTP | SpawnTLS | Waiting | Stopping | Returned | Panicked fault

datatype goroutine = Absent | Created | Listening | Unwinding | Exited

record ('c, 'r, 'm, 's) state =
  app_state :: 's
  events :: "('c, 'r, 'm) event list"
  main :: pc
  listener :: "scheme \<Rightarrow> goroutine"
  wg :: int

definition initial :: "'s \<Rightarrow> ('c, 'r, 'm, 's) state" where
  "initial s = \<lparr>app_state = s, events = [], main = Startup, listener = (\<lambda>_. Absent), wg = 0\<rparr>"

definition call ::
  "('c, 'r) lifecycle \<Rightarrow> ('a \<Rightarrow> ('c, 'r, 'm) retval) \<Rightarrow> ('s \<Rightarrow> (fault + 'a) \<times> 's) \<Rightarrow>
   ('a, ('c, 'r, 'm, 's) state) prog" where
  "call c val f st =
     (case f (app_state st) of
        (Inl e, s) \<Rightarrow> (Inl e, st\<lparr>app_state := s, events := events st @ [Call c, Panics c e]\<rparr>)
      | (Inr v, s) \<Rightarrow> (Inr v, st\<lparr>app_state := s, events := events st @ [Call c, Return c (val v)]\<rparr>))"

subsection \<open>initApp and Run\<close>

definition initApp ::
  "'d package \<Rightarrow> ('r, 's) platform \<Rightarrow> ('c, 'r, 'm, 's) Gapp \<Rightarrow>
   ('c \<times> ('m, 'r) Negroni, ('c, 'r, 'm, 's) state) prog" where
  "initApp pkg env app =
     andThen (call OnLoadConfig Config (LoadConfig app)) (\<lambda>config.
     andThen (call (OnConfigureLogging config) (\<lambda>_. Nothing) (ConfigureLogging app config)) (\<lambda>_.
     andThen (call (OnInitResources config) (\<lambda>_. Nothing) (InitResources app config)) (\<lambda>_.
     andThen (call (OnConfigureRoutes (mux_NewRouter env) config) Router
                (ConfigureRoutes app (mux_NewRouter env) config)) (\<lambda>r.
     andThen (call (OnSetMiddleware config) Units (SetMiddleware app config)) (\<lambda>hs.
     ret (config, negroni_UseHandler (negroni_New hs) r))))))"

text \<open>
  \<open>Run\<close> up to its first \<open>go\<close> statement runs in the main goroutine alone. It ends with
  a panic (of a callback, or its own when no port is positive) or with the server
  configuration and the handler that the listener goroutines will use.
\<close>

definition no_ports :: fault where
  "no_ports = ''No ports specified. Must accept at least one scheme (HTTP and/or HTTPS).''"

definition Run_startup ::
  "'d package \<Rightarrow> ('r, 's) platform \<Rightarrow> ('c, 'r, 'm, 's) Gapp \<Rightarrow>
   (ServerConfig \<times> ('m, 'r) Negroni, ('c, 'r, 'm, 's) state) prog" where
  "Run_startup pkg env app =
     andThen (initApp pkg env app) (\<lambda>(config, n).
     andThen (call (OnGetServerConf config) Conf (GetServerConf app config)) (\<lambda>serverConfig.
     andThen (call (OnHandleStart (Host serverConfig) (Port serverConfig) (TLSPort serverConfig))
                (\<lambda>_. Nothing)
                (HandleStart app (Host serverConfig) (Port serverConfig) (TLSPort serverConfig))) (\<lambda>_.
     if Port serverConfig \<le> 0 \<and> TLSPort serverConfig \<le> 0 then panic no_ports
     else ret (serverConfig, n))))"

text \<open>The server that the goroutine of a scheme builds, and the files it passes for TLS.\<close>

definition server :: "ServerConfig \<Rightarrow> ('m, 'r) Negroni \<Rightarrow> scheme \<Rightarrow> ('m, 'r) Server" where
  "server serverConfig n k =
     \<lparr>srv_Timeout = GracefulTimeout serverConfig,
      srv_Addr = Host serverConfig @ '':'' @
        strconv_Itoa (case k of HTTP \<Rightarrow> Port serverConfig | TLS \<Rightarrow> TLSPort serverConfig),
      srv_Handler = n,
      srv_WriteTimeout = WriteTimeout serverConfig,
      srv_ReadTimeout = ReadTimeout serverConfig\<rparr>"

definition tls_files :: "ServerConfig \<Rightarrow> scheme \<Rightarrow> (string \<times> string) option" where
  "tls_files serverConfig k =
     (case k of HTTP \<Rightarrow> None
      | TLS \<Rightarrow> Some (TLSCertFile serverConfig, TLSPrivateKeyFile serverConfig))"

text \<open>
  From the first \<open>go\<close> statement on, the goroutines interleave. \<open>step\<close> is one step of one
  goroutine, \<open>None\<close> when that goroutine cannot move: it has ended, it was never started,
  or it is the main goroutine in \<open>wg.Wait()\<close> with a counter that is not zero.
  Whether and when a listener's \<open>ListenAndServe\<close> returns is up to the schedule.
\<close>

datatype thread = Main | Listener scheme

definition spawn ::
  "scheme \<Rightarrow> pc \<Rightarrow> ('c, 'r, 'm, 's) state \<Rightarrow> ('c, 'r, 'm, 's) state" where
  "spawn k after st =
     st\<lparr>wg := wg st + 1,
        listener := (listener st)(k := Created),
        events := events st @ [Go k],
        main := after\<rparr>"

definition step_main ::
  "('c, 'r, 'm, 's) Gapp \<Rightarrow> ServerConfig \<Rightarrow> ('c, 'r, 'm, 's) state \<Rightarrow> ('c, 'r, 'm, 's) state option" where
  "step_main app serverConfig st =
     (case main st of
        SpawnHTTP \<Rightarrow>
          Some (if Port serverConfig > 0 then spawn HTTP SpawnTLS st else st\<lparr>main := SpawnTLS\<rparr>)
      | SpawnTLS \<Rightarrow>
          Some (if TLSPort serverConfig > 0 then spawn TLS Waiting st else st\<lparr>main := Waiting\<rparr>)
      | Waiting \<Rightarrow>
          (if wg st = 0 then Some (st\<lparr>events := events st @ [WaitReturned], main := Stopping\<rparr>)
           else None)
      | Stopping \<Rightarrow>
          (case call OnHandleStopped (\<lambda>_. Nothing) (HandleStopped app) st of
             (Inl e, st') \<Rightarrow> Some (st'\<lparr>main := Panicked e\<rparr>)
           | (Inr _, st') \<Rightarrow> Some (st'\<lparr>main := Returned\<rparr>))
      | _ \<Rightarrow> None)"

definition step_listener ::
  "('r, 's) platform \<Rightarrow> ServerConfig \<Rightarrow> ('m, 'r) Negroni \<Rightarrow> scheme \<Rightarrow>
   ('c, 'r, 'm, 's) state \<Rightarrow> ('c, 'r, 'm, 's) state option" where
  "step_listener env serverConfig n k st =
     (case listener st k of
        Created \<Rightarrow>
          Some (st\<lparr>listener := (listener st)(k := Listening),
                   events := events st @ [Listen k (server serverConfig n k) (tls_files serverConfig k)]\<rparr>)
      | Listening \<Rightarrow>
          Some (st\<lparr>listener := (listener st)(k := Unwinding),
                   app_state := serving env k (app_state st),
                   events := events st @ [ListenReturned k]\<rparr>)
      | Unwinding \<Rightarrow>
          Some (st\<lparr>listener := (listener st)(k := Exited),
                   wg := wg st - 1,
                   events := events st @ [Done k]\<rparr>)
      | _ \<Rightarrow> None)"

definition step ::
  "('r, 's) platform \<Rightarrow> ('c, 'r, 'm, 's) Gapp \<Rightarrow> ServerConfig \<Rightarrow> ('m, 'r) Negroni \<Rightarrow> thread \<Rightarrow>
   ('c, 'r, 'm, 's) state \<Rightarrow> ('c, 'r, 'm, 's) state option" where
  "step env app serverConfig n t st =
     (case t of
        Main \<Rightarrow> step_main app serverConfig st
      | Listener k \<Rightarrow> step_listener env serverConfig n k st)"

text \<open>
  A schedule names the goroutine that moves next; naming one that cannot move changes
  nothing. Every finite interleaving of the goroutines is the run of some schedule.
\<close>

fun exec :: "(thread \<Rightarrow> 'st \<Rightarrow> 'st option) \<Rightarrow> thread list \<Rightarrow> 'st \<Rightarrow> 'st" where
  "exec stp [] st = st"
| "exec stp (t # ts) st = exec stp ts (case stp t st of Some st' \<Rightarrow> st' | None \<Rightarrow> st)"

definition Run ::
  "'d package \<Rightarrow> ('r, 's) platform \<Rightarrow> ('c, 'r, 'm, 's) Gapp \<Rightarrow> 's \<Rightarrow> thread list \<Rightarrow>
   ('c, 'r, 'm, 's) state" where
  "Run pkg env app s sched =
     (case Run_startup pkg env app (initial s) of
        (Inl e, st) \<Rightarrow> st\<lparr>main := Panicked e\<rparr>
      | (Inr (serverConfig, n), st) \<Rightarrow>
          exec (step env app serverConfig n) sched (st\<lparr>main := SpawnHTTP\<rparr>))"

section \<open>Notions for stating and proving the properties\<close>


text \<open>
  The part of a trace before the first occurrence of an event.
\<close>

definition before :: "'a \<Rightarrow> 'a list \<Rightarrow> 'a list" where
  "before x xs = takeWhile (\<lambda>y. y \<noteq> x) xs"

text \<open>
  The events of the part of \<open>Run\<close> that precedes the first \<open>go\<close> statement: calls, returns and
  panics of every callback but \<open>HandleStopped\<close>.
\<close>

fun startup_event :: "('c, 'r, 'm) event \<Rightarrow> bool" where
  "startup_event (Call cb) = (cb \<noteq> OnHandleStopped)"
| "startup_event (Return cb v) = (cb \<noteq> OnHandleStopped)"
| "startup_event (Panics cb e) = (cb \<noteq> OnHandleStopped)"
| "startup_event _ = False"

text \<open>
  Invariants of the interleaved part of a run. A listener goroutine is active between
  its \<open>go\<close> statement and its \<open>wg.Done()\<close>, and settled when it was never started or has
  exited; the wait-group counter is the number of active goroutines; \<open>past_spawn\<close> counts
  the \<open>if\<close> statements around the two \<open>go\<close> statements that the main goroutine has passed.
\<close>

fun active :: "goroutine \<Rightarrow> int" where
  "active Created = 1"
| "active Listening = 1"
| "active Unwinding = 1"
| "active _ = 0"

fun settled :: "goroutine \<Rightarrow> bool" where
  "settled Absent = True"
| "settled Exited = True"
| "settled _ = False"

fun stopped :: "pc \<Rightarrow> bool" where
  "stopped Returned = True"
| "stopped (Panicked _) = True"
| "stopped _ = False"

fun past_spawn :: "pc \<Rightarrow> nat" where
  "past_spawn SpawnHTTP = 0"
| "past_spawn SpawnTLS = 1"
| "past_spawn _ = 2"

definition inv_threads :: "ServerConfig \<Rightarrow> ('c, 'r, 'm, 's) state \<Rightarrow> bool" where
  "inv_threads sc st \<longleftrightarrow>
     main st \<noteq> Startup \<and>
     wg st = active (listener st HTTP) + active (listener st TLS) \<and>
     (main st = SpawnHTTP \<longrightarrow> listener st HTTP = Absent) \<and>
     (main st = SpawnHTTP \<or> main st = SpawnTLS \<longrightarrow> listener st TLS = Absent) \<and>
     (main st \<noteq> SpawnHTTP \<longrightarrow> (listener st HTTP \<noteq> Absent \<longleftrightarrow> Port sc > 0)) \<and>
     (main st \<noteq> SpawnHTTP \<and> main st \<noteq> SpawnTLS \<longrightarrow> (listener st TLS \<noteq> Absent \<longleftrightarrow> TLSPort sc > 0)) \<and>
     (main st = Stopping \<or> stopped (main st) \<longrightarrow>
        settled (listener st HTTP) \<and> settled (listener st TLS))"

definition inv_events ::
  "ServerConfig \<Rightarrow> ('m, 'r) Negroni \<Rightarrow> scheme \<Rightarrow> ('c, 'r, 'm, 's) state \<Rightarrow> bool" where
  "inv_events sc n k st \<longleftrightarrow>
     count_list (events st) (Go k) = (if listener st k = Absent then 0 else 1) \<and>
     (Done k \<in> set (events st) \<longleftrightarrow> listener st k = Exited) \<and>
     (\<forall>srv f. Listen k srv f \<in> set (events st) \<longrightarrow> srv = server sc n k \<and> f = tls_files sc k) \<and>
     count_list (events st) (Listen k (server sc n k) (tls_files sc k)) =
       (if listener st k = Absent \<or> listener st k = Created then 0 else 1)"

definition inv_stop :: "scheme \<Rightarrow> ('c, 'r, 'm, 's) state \<Rightarrow> bool" where
  "inv_stop k st \<longleftrightarrow>
     count_list (events st) (Call OnHandleStopped) = (if stopped (main st) then 1 else 0) \<and>
     (main st = Stopping \<or> stopped (main st) \<longrightarrow>
        WaitReturned \<in> set (before (Call OnHandleStopped) (events st))) \<and>
     (stopped (main st) \<and> listener st k \<noteq> Absent \<longrightarrow>
        Done k \<in> set (before (Call OnHandleStopped) (events st)))"

definition run_inv :: "ServerConfig \<Rightarrow> ('m, 'r) Negroni \<Rightarrow> ('c, 'r, 'm, 's) state \<Rightarrow> bool" where
  "run_inv sc n st \<longleftrightarrow> inv_threads sc st \<and> (\<forall>k. inv_events sc n k st \<and> inv_stop k st)"

subsection \<open>Sample inputs\<close>

text \<open>
  The address of a request, a world, three handlers (one records status 200 on the writer
  at address 0, one does so and rewrites the path of the request, one panics), two
  recovery callbacks (one returns without calling \<open>recover()\<close>, one calls it and records
  status 500 when there was a panic) and two logging callbacks.
\<close>

definition sample_request :: nat where
  "sample_request = 3"

definition sample_world :: "unit world" where
  "sample_world =
     \<lparr>clock = 1000, trace = [],
      heap = \<lparr>status = (\<lambda>_. 0), request = (\<lambda>_. \<lparr>Method = ''GET'', Path = ''/health''\<rparr>),
              user = ()\<rparr>\<rparr>"

definition writes_200 :: "unit HandlerFunc" where
  "writes_200 rw r h = (Inr (), h\<lparr>status := (status h)(0 := 200)\<rparr>, 40)"

definition rewrites_path :: "unit HandlerFunc" where
  "rewrites_path rw r h =
     (Inr (),
      h\<lparr>status := (status h)(0 := 200),
        request := (request h)(r := (request h r)\<lparr>Path := ''/v2/health''\<rparr>)\<rparr>,
      40)"

definition panicking_handler :: "unit HandlerFunc" where
  "panicking_handler rw r h = (Inl ''boom'', h, 40)"

definition silent_recover :: "ResponseWriter \<Rightarrow> nat \<Rightarrow> fault option \<Rightarrow> (bool, unit) effect" where
  "silent_recover rw r p h = (Inr False, h, 1)"

definition recovering :: "ResponseWriter \<Rightarrow> nat \<Rightarrow> fault option \<Rightarrow> (bool, unit) effect" where
  "recovering rw r p h =
     (Inr True, (case p of None \<Rightarrow> h | Some _ \<Rightarrow> h\<lparr>status := (status h)(0 := 500)\<rparr>), 1)"

definition sample_pre :: "string \<Rightarrow> string \<Rightarrow> int \<Rightarrow> (unit, unit) effect" where
  "sample_pre m p t h = (Inr (), h, 2)"

definition sample_post :: "string \<Rightarrow> string \<Rightarrow> int \<Rightarrow> int \<Rightarrow> (unit, unit) effect" where
  "sample_post m p st d h = (Inr (), h, 3)"

text \<open>
  An application whose callbacks all return, with the ports as parameters; one whose
  callbacks each add one to its state and whose \<open>i\<close>-th callback panics (none of them
  for \<open>i\<close> above 7); and the platform and package state they run on.
\<close>

definition demo_conf :: "int \<Rightarrow> int \<Rightarrow> ServerConfig" where
  "demo_conf p t =
     \<lparr>Host = ''localhost'', Port = p, GracefulTimeout = 10, ReadTimeout = 5, WriteTimeout = 6,
      TLSPort = t, TLSCertFile = ''cert.pem'', TLSPrivateKeyFile = ''key.pem''\<rparr>"

definition demo_app :: "int \<Rightarrow> int \<Rightarrow> (nat, string list, string, nat) Gapp" where
  "demo_app p t =
     \<lparr>LoadConfig = (\<lambda>s. (Inr 7, s)),
      ConfigureLogging = (\<lambda>c s. (Inr (), s)),
      InitResources = (\<lambda>c s. (Inr (), Suc s)),
      ConfigureRoutes = (\<lambda>r c s. (Inr (r @ [''/health'']), s)),
      SetMiddleware = (\<lambda>c s. (Inr [''recovery'', ''logging''], s)),
      GetServerConf = (\<lambda>c s. (Inr (demo_conf p t), s)),
      HandleStart = (\<lambda>h p t s. (Inr (), s)),
      HandleStopped = (\<lambda>s. (Inr (), s))\<rparr>"

definition panics_at :: "nat \<Rightarrow> (nat, string list, string, nat) Gapp" where
  "panics_at i =
     \<lparr>LoadConfig = (\<lambda>s. (if i = 0 then Inl ''load'' else Inr 7, Suc s)),
      ConfigureLogging = (\<lambda>c s. (if i = 1 then Inl ''logging'' else Inr (), Suc s)),
      InitResources = (\<lambda>c s. (if i = 2 then Inl ''no database'' else Inr (), Suc s)),
      ConfigureRoutes = (\<lambda>r c s. (if i = 3 then Inl ''routes'' else Inr (r @ [''/health'']), Suc s)),
      SetMiddleware = (\<lambda>c s. (if i = 4 then Inl ''middleware'' else Inr [''recovery'', ''logging''], Suc s)),
      GetServerConf = (\<lambda>c s. (if i = 5 then Inl ''conf'' else Inr (demo_conf 8080 0), Suc s)),
      HandleStart = (\<lambda>h p t s. (if i = 6 then Inl ''not ready'' else Inr (), Suc s)),
      HandleStopped = (\<lambda>s. (Inr (), Suc s))\<rparr>"

definition demo_env :: "(string list, nat) platform" where
  "demo_env = \<lparr>mux_NewRouter = [], serving = (\<lambda>k s. s)\<rparr>"

definition demo_pkg :: "bool package" where
  "demo_pkg = \<lparr>doRunFunc = True\<rparr>"

definition demo_handler :: "(string, string list) Negroni" where
  "demo_handler = [Unit ''recovery'', Unit ''logging'', Wrap [''/health'']]"

definition demo_startup :: "int \<Rightarrow> int \<Rightarrow> (nat, string list, string) event list" where
  "demo_startup p t =
     [Call OnLoadConfig, Return OnLoadConfig (Config 7),
      Call (OnConfigureLogging 7), Return (OnConfigureLogging 7) Nothing,
      Call (OnInitResources 7), Return (OnInitResources 7) Nothing,
      Call (OnConfigureRoutes [] 7), Return (OnConfigureRoutes [] 7) (Router [''/health'']),
      Call (OnSetMiddleware 7), Return (OnSetMiddleware 7) (Units [''recovery'', ''logging'']),
      Call (OnGetServerConf 7), Return (OnGetServerConf 7) (Conf (demo_conf p t)),
      Call (OnHandleStart ''localhost'' p t), Return (OnHandleStart ''localhost'' p t) Nothing]"

section \<open>Lemmas\<close>

lemmas sample_defs = sample_request_def sample_world_def writes_200_def rewrites_path_def
  panicking_handler_def silent_recover_def recovering_def sample_pre_def sample_post_def

lemmas run_eval = Run_def Run_startup_def initApp_def andThen_def call_def ret_def panic_def
  initial_def step_def step_main_def step_listener_def spawn_def negroni_New_def
  negroni_UseHandler_def demo_conf_def demo_app_def demo_env_def demo_pkg_def
  demo_handler_def demo_startup_def


lemma before_append:
  "before x (xs @ ys) = (if x \<in> set xs then before x xs else xs @ before x ys)"
  by (auto simp: before_def takeWhile_append)

lemma before_simps:
  "before x [] = []"
  "before x (y # ys) = (if y = x then [] else y # before x ys)"
  by (auto simp: before_def)

lemma before_notin: "x \<notin> set xs \<Longrightarrow> before x xs = xs"
  by (auto simp: before_def)

subsection \<open>One step of a goroutine\<close>

lemma step_listener_cases:
  assumes "step_listener env sc n k st = Some st'"
  obtains
    (listen) "listener st k = Created" and
      "st' = st\<lparr>listener := (listener st)(k := Listening),
                events := events st @ [Listen k (server sc n k) (tls_files sc k)]\<rparr>"
  | (return) "listener st k = Listening" and
      "st' = st\<lparr>listener := (listener st)(k := Unwinding),
                app_state := serving env k (app_state st),
                events := events st @ [ListenReturned k]\<rparr>"
  | (exit) "listener st k = Unwinding" and
      "st' = st\<lparr>listener := (listener st)(k := Exited), wg := wg st - 1,
                events := events st @ [Done k]\<rparr>"
  using assms unfolding step_listener_def
  by (cases "listener st k") auto

lemma step_main_cases:
  assumes "step_main app sc st = Some st'"
  obtains
    (http) "main st = SpawnHTTP" and "Port sc > 0" and "st' = spawn HTTP SpawnTLS st"
  | (no_http) "main st = SpawnHTTP" and "\<not> Port sc > 0" and "st' = st\<lparr>main := SpawnTLS\<rparr>"
  | (tls) "main st = SpawnTLS" and "TLSPort sc > 0" and "st' = spawn TLS Waiting st"
  | (no_tls) "main st = SpawnTLS" and "\<not> TLSPort sc > 0" and "st' = st\<lparr>main := Waiting\<rparr>"
  | (wait) "main st = Waiting" and "wg st = 0" and
      "st' = st\<lparr>events := events st @ [WaitReturned], main := Stopping\<rparr>"
  | (stop) s e where "main st = Stopping" and "HandleStopped app (app_state st) = (Inl e, s)" and
      "st' = st\<lparr>app_state := s,
                events := events st @ [Call OnHandleStopped, Panics OnHandleStopped e],
                main := Panicked e\<rparr>"
  | (stop_ok) s where "main st = Stopping" and "HandleStopped app (app_state st) = (Inr (), s)" and
      "st' = st\<lparr>app_state := s,
                events := events st @ [Call OnHandleStopped, Return OnHandleStopped Nothing],
                main := Returned\<rparr>"
  using assms unfolding step_main_def call_def
  by (cases "main st") (auto split: if_splits sum.splits prod.splits)

lemma active_nonneg: "0 \<le> active g"
  by (cases g) auto

lemma active_zero: "active g = 0 \<longleftrightarrow> settled g"
  by (cases g) auto

lemma wg_zero_settled:
  assumes "active a + active b = 0"
  shows "settled a \<and> settled b"
  using assms active_nonneg [of a] active_nonneg [of b] active_zero [of a] active_zero [of b]
  by linarith

lemma settled_cases: "settled g \<Longrightarrow> g \<noteq> Absent \<Longrightarrow> g = Exited"
  by (cases g) auto

subsection \<open>The invariants hold along every schedule\<close>

lemma inv_threads_listener:
  assumes "inv_threads sc st" "step_listener env sc n k st = Some st'"
  shows "inv_threads sc st'"
  using assms(2)
proof (cases rule: step_listener_cases)
  case listen
  with assms(1) show ?thesis unfolding inv_threads_def by (cases k) auto
next
  case return
  with assms(1) show ?thesis unfolding inv_threads_def by (cases k) auto
next
  case exit
  with assms(1) show ?thesis unfolding inv_threads_def by (cases k) auto
qed

lemma inv_threads_main:
  assumes "inv_threads sc st" "step_main app sc st = Some st'"
  shows "inv_threads sc st'"
  using assms(2)
proof (cases rule: step_main_cases)
  case wait
  with assms(1) wg_zero_settled [of "listener st HTTP" "listener st TLS"]
  show ?thesis unfolding inv_threads_def by auto
qed (use assms(1) in \<open>auto simp: inv_threads_def spawn_def\<close>)

lemma inv_events_listener:
  assumes "inv_events sc n k' st" "step_listener env sc n k st = Some st'"
  shows "inv_events sc n k' st'"
  using assms(2)
proof (cases rule: step_listener_cases)
  case listen
  with assms(1) show ?thesis unfolding inv_events_def by (cases "k' = k") auto
next
  case return
  with assms(1) show ?thesis unfolding inv_events_def by (cases "k' = k") auto
next
  case exit
  with assms(1) show ?thesis unfolding inv_events_def by (cases "k' = k") auto
qed

lemma inv_events_main:
  assumes "inv_events sc n k st" "inv_threads sc st" "step_main app sc st = Some st'"
  shows "inv_events sc n k st'"
  using assms(3)
proof (cases rule: step_main_cases)
  case http
  with assms(1,2) show ?thesis unfolding inv_events_def inv_threads_def spawn_def
    by (cases k) auto
next
  case tls
  with assms(1,2) show ?thesis unfolding inv_events_def inv_threads_def spawn_def
    by (cases k) auto
qed (use assms(1) in \<open>auto simp: inv_events_def\<close>)

lemma inv_stop_listener:
  assumes "inv_stop k' st" "inv_threads sc st" "step_listener env sc n k st = Some st'"
  shows "inv_stop k' st'"
  using assms(3)
proof (cases rule: step_listener_cases)
  case listen
  with assms(1,2) show ?thesis unfolding inv_stop_def inv_threads_def
    by (cases k; cases k') (auto simp: before_append)
next
  case return
  with assms(1,2) show ?thesis unfolding inv_stop_def inv_threads_def
    by (cases k; cases k') (auto simp: before_append)
next
  case exit
  with assms(1,2) show ?thesis unfolding inv_stop_def inv_threads_def
    by (cases k; cases k') (auto simp: before_append)
qed

lemma inv_stop_main:
  assumes "inv_stop k st" "inv_threads sc st" "inv_events sc n k st" "step_main app sc st = Some st'"
  shows "inv_stop k st'"
  using assms(4)
proof (cases rule: step_main_cases)
  case stop
  from assms(1) stop have notin: "Call OnHandleStopped \<notin> set (events st)"
    by (simp add: inv_stop_def count_list_0_iff)
  from assms(2) stop have "settled (listener st k)"
    by (cases k) (auto simp: inv_threads_def)
  with assms(3) have "listener st k \<noteq> Absent \<longrightarrow> Done k \<in> set (events st)"
    by (auto simp: inv_events_def dest: settled_cases)
  with assms(1) stop notin show ?thesis
    by (auto simp: inv_stop_def before_append before_simps before_notin)
next
  case stop_ok
  from assms(1) stop_ok have notin: "Call OnHandleStopped \<notin> set (events st)"
    by (simp add: inv_stop_def count_list_0_iff)
  from assms(2) stop_ok have "settled (listener st k)"
    by (cases k) (auto simp: inv_threads_def)
  with assms(3) have "listener st k \<noteq> Absent \<longrightarrow> Done k \<in> set (events st)"
    by (auto simp: inv_events_def dest: settled_cases)
  with assms(1) stop_ok notin show ?thesis
    by (auto simp: inv_stop_def before_append before_simps before_notin)
next
  case wait
  from assms(1) wait have notin: "Call OnHandleStopped \<notin> set (events st)"
    by (simp add: inv_stop_def count_list_0_iff)
  with assms(1) wait show ?thesis 
    by (auto simp: inv_stop_def before_append before_simps before_notin)
qed (use assms(1) in \<open>auto simp: inv_stop_def spawn_def before_append\<close>)

lemma run_inv_step:
  assumes "run_inv sc n st" "step env app sc n t st = Some st'"
  shows "run_inv sc n st'"
proof -
  from assms(1) have T: "inv_threads sc st" and E: "\<And>k. inv_events sc n k st"
    and S: "\<And>k. inv_stop k st"
    by (simp_all add: run_inv_def)
  show ?thesis
  proof (cases t)
    case Main
    with assms(2) have m: "step_main app sc st = Some st'" by (simp add: step_def)
    show ?thesis unfolding run_inv_def
      using inv_threads_main [OF T m] inv_events_main [OF E T m] inv_stop_main [OF S T E m]
      by blast
  next
    case (Listener k)
    with assms(2) have l: "step_listener env sc n k st = Some st'" by (simp add: step_def)
    show ?thesis unfolding run_inv_def
      using inv_threads_listener [OF T l] inv_events_listener [OF E l] inv_stop_listener [OF S T l]
      by blast
  qed
qed

lemma run_inv_exec: "run_inv sc n st \<Longrightarrow> run_inv sc n (exec (step env app sc n) sched st)"
proof (induction sched arbitrary: st)
  case Nil
  then show ?case by simp
next
  case (Cons t ts)
  show ?case
  proof (cases "step env app sc n t st")
    case None
    with Cons show ?thesis by simp
  next
    case (Some st')
    from Cons.prems Some have "run_inv sc n st'" by (rule run_inv_step)
    with Cons.IH Some show ?thesis by simp
  qed
qed

lemma step_events:
  assumes "step env app sc n t st = Some st'"
  shows "\<exists>rest. events st' = events st @ rest \<and> (\<forall>e \<in> set rest. \<not> startup_event e)"
proof (cases t)
  case Main
  with assms have "step_main app sc st = Some st'" by (simp add: step_def)
  then show ?thesis by (cases rule: step_main_cases) (auto simp: spawn_def)
next
  case (Listener k)
  with assms have "step_listener env sc n k st = Some st'" by (simp add: step_def)
  then show ?thesis by (cases rule: step_listener_cases) auto
qed

lemma exec_events:
  "\<exists>rest. events (exec (step env app sc n) sched st) = events st @ rest \<and>
          (\<forall>e \<in> set rest. \<not> startup_event e)"
proof (induction sched arbitrary: st)
  case Nil
  then show ?case by simp
next
  case (Cons t ts)
  show ?case
  proof (cases "step env app sc n t st")
    case None
    with Cons show ?thesis by simp
  next
    case (Some st')
    from step_events [OF Some] obtain m1 where
      m1: "events st' = events st @ m1" "\<forall>e \<in> set m1. \<not> startup_event e" by blast
    from Cons.IH [of st'] obtain m2 where
      m2: "events (exec (step env app sc n) ts st') = events st' @ m2"
        "\<forall>e \<in> set m2. \<not> startup_event e" by blast
    from m1 m2 Some show ?thesis by (intro exI [of _ "m1 @ m2"]) auto
  qed
qed

lemma step_progress:
  assumes "main st \<noteq> Startup"
  shows "past_spawn (main (case step env app sc n t st of Some st' \<Rightarrow> st' | None \<Rightarrow> st)) \<ge>
         min 2 (past_spawn (main st) + (if t = Main then 1 else 0)) \<and>
         main (case step env app sc n t st of Some st' \<Rightarrow> st' | None \<Rightarrow> st) \<noteq> Startup"
proof (cases t)
  case Main
  show ?thesis
  proof (cases "step_main app sc st")
    case None
    with Main assms show ?thesis
      by (cases "main st") (auto simp: step_def step_main_def split: if_splits)
  next
    case (Some st')
    then show ?thesis using Main assms
      by (cases rule: step_main_cases) (auto simp: step_def spawn_def Some)
  qed
next
  case (Listener k)
  show ?thesis
  proof (cases "step_listener env sc n k st")
    case None
    with Listener assms show ?thesis by (simp add: step_def)
  next
    case (Some st')
    then show ?thesis using Listener assms
      by (cases rule: step_listener_cases) (auto simp: step_def Some)
  qed
qed

lemma exec_progress:
  "main st \<noteq> Startup \<Longrightarrow>
   past_spawn (main (exec (step env app sc n) sched st)) \<ge>
     min 2 (past_spawn (main st) + count_list sched Main)"
proof (induction sched arbitrary: st)
  case Nil
  then show ?case by (cases "main st") auto
next
  case (Cons t ts)
  let ?st = "case step env app sc n t st of Some st' \<Rightarrow> st' | None \<Rightarrow> st"
  from step_progress [OF Cons.prems] have
    a: "past_spawn (main ?st) \<ge> min 2 (past_spawn (main st) + (if t = Main then 1 else 0))"
    and b: "main ?st \<noteq> Startup" by blast+
  from Cons.IH [OF b] a show ?case by (auto split: if_splits)
qed

lemma past_spawn_2: "past_spawn p \<ge> 2 \<Longrightarrow> p \<noteq> SpawnHTTP \<and> p \<noteq> SpawnTLS"
  by (cases p) auto

subsection \<open>The sequential part of Run\<close>

lemma andThen_cases:
  assumes "andThen m k w = (res, w')"
  obtains
    (fail) e where "m w = (Inl e, w')" and "res = Inl e"
  | (cont) x w1 where "m w = (Inr x, w1)" and "k x w1 = (res, w')"
  using assms unfolding andThen_def
  by (auto split: prod.splits sum.splits)

lemma call_cases:
  assumes "call c val f st = (res, st')"
  obtains
    (panics) e where "res = Inl e" and
      "events st' = events st @ [Call c, Panics c e]" and
      "main st' = main st" and "listener st' = listener st" and "wg st' = wg st"
  | (returns) v where "res = Inr v" and
      "events st' = events st @ [Call c, Return c (val v)]" and
      "main st' = main st" and "listener st' = listener st" and "wg st' = wg st"
  using assms unfolding call_def
  by (auto split: prod.splits sum.splits)

lemma initApp_cases:
  assumes "initApp pkg env app st0 = (res, st)"
  shows "main st = main st0 \<and> listener st = listener st0 \<and> wg st = wg st0 \<and>
   ((\<exists>e. res = Inl e \<and>
      events st = events st0 @ [Call OnLoadConfig, Panics OnLoadConfig e])
  \<or> (\<exists>c e. res = Inl e \<and>
      events st = events st0 @ [Call OnLoadConfig, Return OnLoadConfig (Config c),
                    Call (OnConfigureLogging c), Panics (OnConfigureLogging c) e])
  \<or> (\<exists>c e. res = Inl e \<and>
      events st = events st0 @ [Call OnLoadConfig, Return OnLoadConfig (Config c),
                    Call (OnConfigureLogging c), Return (OnConfigureLogging c) Nothing,
                    Call (OnInitResources c), Panics (OnInitResources c) e])
  \<or> (\<exists>c e. res = Inl e \<and>
      events st = events st0 @ [Call OnLoadConfig, Return OnLoadConfig (Config c),
                    Call (OnConfigureLogging c), Return (OnConfigureLogging c) Nothing,
                    Call (OnInitResources c), Return (OnInitResources c) Nothing,
                    Call (OnConfigureRoutes (mux_NewRouter env) c),
                    Panics (OnConfigureRoutes (mux_NewRouter env) c) e])
  \<or> (\<exists>c r e. res = Inl e \<and>
      events st = events st0 @ [Call OnLoadConfig, Return OnLoadConfig (Config c),
                    Call (OnConfigureLogging c), Return (OnConfigureLogging c) Nothing,
                    Call (OnInitResources c), Return (OnInitResources c) Nothing,
                    Call (OnConfigureRoutes (mux_NewRouter env) c),
                    Return (OnConfigureRoutes (mux_NewRouter env) c) (Router r),
                    Call (OnSetMiddleware c), Panics (OnSetMiddleware c) e])
  \<or> (\<exists>c r hs. res = Inr (c, map Unit hs @ [Wrap r]) \<and>
      events st = events st0 @ [Call OnLoadConfig, Return OnLoadConfig (Config c),
                    Call (OnConfigureLogging c), Return (OnConfigureLogging c) Nothing,
                    Call (OnInitResources c), Return (OnInitResources c) Nothing,
                    Call (OnConfigureRoutes (mux_NewRouter env) c),
                    Return (OnConfigureRoutes (mux_NewRouter env) c) (Router r),
                    Call (OnSetMiddleware c), Return (OnSetMiddleware c) (Units hs)]))"
  using assms unfolding initApp_def
  apply (elim andThen_cases call_cases)
  apply (simp_all add: ret_def negroni_New_def negroni_UseHandler_def)
  done

lemma Run_startup_cases:
  assumes "Run_startup pkg env app st0 = (res, st)"
  shows "main st = main st0 \<and> listener st = listener st0 \<and> wg st = wg st0 \<and>
   ((\<exists>e. res = Inl e \<and>
      events st = events st0 @ [Call OnLoadConfig, Panics OnLoadConfig e])
  \<or> (\<exists>c e. res = Inl e \<and>
      events st = events st0 @ [Call OnLoadConfig, Return OnLoadConfig (Config c),
                    Call (OnConfigureLogging c), Panics (OnConfigureLogging c) e])
  \<or> (\<exists>c e. res = Inl e \<and>
      events st = events st0 @ [Call OnLoadConfig, Return OnLoadConfig (Config c),
                    Call (OnConfigureLogging c), Return (OnConfigureLogging c) Nothing,
                    Call (OnInitResources c), Panics (OnInitResources c) e])
  \<or> (\<exists>c e. res = Inl e \<and>
      events st = events st0 @ [Call OnLoadConfig, Return OnLoadConfig (Config c),
                    Call (OnConfigureLogging c), Return (OnConfigureLogging c) Nothing,
                    Call (OnInitResources c), Return (OnInitResources c) Nothing,
                    Call (OnConfigureRoutes (mux_NewRouter env) c),
                    Panics (OnConfigureRoutes (mux_NewRouter env) c) e])
  \<or> (\<exists>c r e. res = Inl e \<and>
      events st = events st0 @ [Call OnLoadConfig, Return OnLoadConfig (Config c),
                    Call (OnConfigureLogging c), Return (OnConfigureLogging c) Nothing,
                    Call (OnInitResources c), Return (OnInitResources c) Nothing,
                    Call (OnConfigureRoutes (mux_NewRouter env) c),
                    Return (OnConfigureRoutes (mux_NewRouter env) c) (Router r),
                    Call (OnSetMiddleware c), Panics (OnSetMiddleware c) e])
  \<or> (\<exists>c r hs e. res = Inl e \<and>
      events st = events st0 @ [Call OnLoadConfig, Return OnLoadConfig (Config c),
                    Call (OnConfigureLogging c), Return (OnConfigureLogging c) Nothing,
                    Call (OnInitResources c), Return (OnInitResources c) Nothing,
                    Call (OnConfigureRoutes (mux_NewRouter env) c),
                    Return (OnConfigureRoutes (mux_NewRouter env) c) (Router r),
                    Call (OnSetMiddleware c), Return (OnSetMiddleware c) (Units hs),
                    Call (OnGetServerConf c),  Panics (OnGetServerConf c) e])
  \<or> (\<exists>c r hs sc e. res = Inl e \<and>
      events st = events st0 @ [Call OnLoadConfig, Return OnLoadConfig (Config c),
                    Call (OnConfigureLogging c), Return (OnConfigureLogging c) Nothing,
                    Call (OnInitResources c), Return (OnInitResources c) Nothing,
                    Call (OnConfigureRoutes (mux_NewRouter env) c),
                    Return (OnConfigureRoutes (mux_NewRouter env) c) (Router r),
                    Call (OnSetMiddleware c), Return (OnSetMiddleware c) (Units hs),
                    Call (OnGetServerConf c),  Return (OnGetServerConf c) (Conf sc),
                    Call (OnHandleStart (Host sc) (Port sc) (TLSPort sc)),
                    Panics (OnHandleStart (Host sc) (Port sc) (TLSPort sc)) e])
  \<or> (\<exists>c r hs sc. res = Inl no_ports \<and> Port sc \<le> 0 \<and> TLSPort sc \<le> 0 \<and>
      events st = events st0 @ [Call OnLoadConfig, Return OnLoadConfig (Config c),
                    Call (OnConfigureLogging c), Return (OnConfigureLogging c) Nothing,
                    Call (OnInitResources c), Return (OnInitResources c) Nothing,
                    Call (OnConfigureRoutes (mux_NewRouter env) c),
                    Return (OnConfigureRoutes (mux_NewRouter env) c) (Router r),
                    Call (OnSetMiddleware c), Return (OnSetMiddleware c) (Units hs),
                    Call (OnGetServerConf c),  Return (OnGetServerConf c) (Conf sc),
                    Call (OnHandleStart (Host sc) (Port sc) (TLSPort sc)),
                    Return (OnHandleStart (Host sc) (Port sc) (TLSPort sc)) Nothing])
  \<or> (\<exists>c r hs sc. res = Inr (sc, map Unit hs @ [Wrap r]) \<and> (0 < Port sc \<or> 0 < TLSPort sc) \<and>
      events st = events st0 @ [Call OnLoadConfig, Return OnLoadConfig (Config c),
                    Call (OnConfigureLogging c), Return (OnConfigureLogging c) Nothing,
                    Call (OnInitResources c), Return (OnInitResources c) Nothing,
                    Call (OnConfigureRoutes (mux_NewRouter env) c),
                    Return (OnConfigureRoutes (mux_NewRouter env) c) (Router r),
                    Call (OnSetMiddleware c), Return (OnSetMiddleware c) (Units hs),
                    Call (OnGetServerConf c),  Return (OnGetServerConf c) (Conf sc),
                    Call (OnHandleStart (Host sc) (Port sc) (TLSPort sc)),
                    Return (OnHandleStart (Host sc) (Port sc) (TLSPort sc)) Nothing]))"
  using assms unfolding Run_startup_def
proof (cases rule: andThen_cases)
  case (fail e)
  from initApp_cases [OF fail(1)] fail(2) show ?thesis
    by (elim conjE disjE exE; simp)
next
  case (cont x w1)
  from initApp_cases [OF cont(1)] obtain c r hs where
    x: "x = (c, map Unit hs @ [Wrap r])" and
    w1: "main w1 = main st0" "listener w1 = listener st0" "wg w1 = wg st0"
      "events w1 = events st0 @ [Call OnLoadConfig, Return OnLoadConfig (Config c),
                    Call (OnConfigureLogging c), Return (OnConfigureLogging c) Nothing,
                    Call (OnInitResources c), Return (OnInitResources c) Nothing,
                    Call (OnConfigureRoutes (mux_NewRouter env) c),
                    Return (OnConfigureRoutes (mux_NewRouter env) c) (Router r),
                    Call (OnSetMiddleware c), Return (OnSetMiddleware c) (Units hs)]"
    by (elim conjE disjE exE; simp)
  from cont(2) x have
    "andThen (call (OnGetServerConf c) Conf (GetServerConf app c)) (\<lambda>serverConfig.
     andThen (call (OnHandleStart (Host serverConfig) (Port serverConfig) (TLSPort serverConfig))
                (\<lambda>_. Nothing)
                (HandleStart app (Host serverConfig) (Port serverConfig) (TLSPort serverConfig))) (\<lambda>_.
     if Port serverConfig \<le> 0 \<and> TLSPort serverConfig \<le> 0 then panic no_ports
     else ret (serverConfig, map Unit hs @ [Wrap r]))) w1 = (res, st)"
    by simp
  then show ?thesis
    apply (elim andThen_cases call_cases)
    apply (simp_all add: w1 ret_def panic_def split: if_splits)
    apply linarith
    done
qed

lemma Run_startup_normal:
  assumes "LoadConfig app s = (Inr c, s_load)"
    and "ConfigureLogging app c s_load = (Inr (), s_log)"
    and "InitResources app c s_log = (Inr (), s_res)"
    and "ConfigureRoutes app (mux_NewRouter env) c s_res = (Inr r, s_routes)"
    and "SetMiddleware app c s_routes = (Inr hs, s_mw)"
    and "GetServerConf app c s_mw = (Inr sc, s_conf)"
    and "HandleStart app (Host sc) (Port sc) (TLSPort sc) s_conf = (Inr (), s_start)"
  shows "Run_startup pkg env app (initial s) =
     ((if Port sc \<le> 0 \<and> TLSPort sc \<le> 0 then Inl no_ports
       else Inr (sc, map Unit hs @ [Wrap r])),
      \<lparr>app_state = s_start,
       events = [Call OnLoadConfig, Return OnLoadConfig (Config c),
                 Call (OnConfigureLogging c), Return (OnConfigureLogging c) Nothing,
                 Call (OnInitResources c), Return (OnInitResources c) Nothing,
                 Call (OnConfigureRoutes (mux_NewRouter env) c),
                 Return (OnConfigureRoutes (mux_NewRouter env) c) (Router r),
                 Call (OnSetMiddleware c), Return (OnSetMiddleware c) (Units hs),
                 Call (OnGetServerConf c), Return (OnGetServerConf c) (Conf sc),
                 Call (OnHandleStart (Host sc) (Port sc) (TLSPort sc)),
                 Return (OnHandleStart (Host sc) (Port sc) (TLSPort sc)) Nothing],
       main = Startup, listener = (\<lambda>_. Absent), wg = 0\<rparr>)"
  by (simp add: Run_startup_def initApp_def andThen_def call_def ret_def panic_def initial_def
      negroni_New_def negroni_UseHandler_def assms)

lemma Run_startup_ok:
  assumes "Run_startup pkg env app (initial s) = (Inr (sc, n), st0)"
  shows "\<exists>c r hs. n = map Unit hs @ [Wrap r] \<and> (0 < Port sc \<or> 0 < TLSPort sc) \<and>
     events st0 = [Call OnLoadConfig, Return OnLoadConfig (Config c),
                    Call (OnConfigureLogging c), Return (OnConfigureLogging c) Nothing,
                    Call (OnInitResources c), Return (OnInitResources c) Nothing,
                    Call (OnConfigureRoutes (mux_NewRouter env) c),
                    Return (OnConfigureRoutes (mux_NewRouter env) c) (Router r),
                    Call (OnSetMiddleware c), Return (OnSetMiddleware c) (Units hs),
                    Call (OnGetServerConf c), Return (OnGetServerConf c) (Conf sc),
                    Call (OnHandleStart (Host sc) (Port sc) (TLSPort sc)),
                    Return (OnHandleStart (Host sc) (Port sc) (TLSPort sc)) Nothing]"
  using Run_startup_cases [OF assms]
  by (elim conjE disjE exE; simp add: initial_def)

lemma startup_event_later:
  assumes "\<forall>e \<in> set rest. \<not> startup_event e" "startup_event x"
  shows "x \<in> set (xs @ rest) \<longleftrightarrow> x \<in> set xs"
  using assms by auto

lemma Run_startup_events:
  assumes "Run_startup pkg env app (initial s) = (res, st0)"
  shows "\<forall>e \<in> set (events st0). startup_event e"
  using Run_startup_cases [OF assms]
  by (elim conjE disjE exE; simp add: initial_def)

lemma run_inv_start:
  assumes "main st = SpawnHTTP" "listener st = (\<lambda>_. Absent)" "wg st = 0"
    "\<forall>e \<in> set (events st). startup_event e"
  shows "run_inv sc n st"
proof -
  have a: "\<And>e. \<not> startup_event e \<Longrightarrow> e \<notin> set (events st)"
    using assms(4) by blast
  have "\<And>k. Go k \<notin> set (events st)" "\<And>k. Done k \<notin> set (events st)"
    "\<And>k srv f. Listen k srv f \<notin> set (events st)" "Call OnHandleStopped \<notin> set (events st)"
    by (rule a, simp)+
  with assms(1-3) show ?thesis
    by (simp add: run_inv_def inv_threads_def inv_events_def inv_stop_def count_list_0_iff)
qed

lemma Run_aborted:
  assumes "Run_startup pkg env app (initial s) = (Inl e, st0)"
  shows "Run pkg env app s sched = st0\<lparr>main := Panicked e\<rparr>"
  using assms by (simp add: Run_def)

lemma Run_listening:
  assumes "Run_startup pkg env app (initial s) = (Inr (sc, n), st0)"
  shows "run_inv sc n (Run pkg env app s sched)"
    and "\<exists>rest. events (Run pkg env app s sched) = events st0 @ rest \<and>
           (\<forall>e \<in> set rest. \<not> startup_event e)"
proof -
  have R: "Run pkg env app s sched = exec (step env app sc n) sched (st0\<lparr>main := SpawnHTTP\<rparr>)"
    using assms by (simp add: Run_def)
  from Run_startup_cases [OF assms] have
    st0: "listener st0 = (\<lambda>_. Absent)" "wg st0 = 0" "\<forall>e \<in> set (events st0). startup_event e"
    by (auto simp: initial_def)
  then have "run_inv sc n (st0\<lparr>main := SpawnHTTP\<rparr>)"
    by (intro run_inv_start) simp_all
  then show "run_inv sc n (Run pkg env app s sched)"
    unfolding R by (rule run_inv_exec)
  from exec_events [of env app sc n sched "st0\<lparr>main := SpawnHTTP\<rparr>"]
  show "\<exists>rest. events (Run pkg env app s sched) = events st0 @ rest \<and>
           (\<forall>e \<in> set rest. \<not> startup_event e)"
    unfolding R by simp
qed

subsection \<open>The sample runs\<close>

lemma demo_no_ports:
  "events (Run demo_pkg demo_env (demo_app 0 0) 0 [Main, Listener HTTP]) = demo_startup 0 0"
  "main (Run demo_pkg demo_env (demo_app 0 0) 0 [Main, Listener HTTP]) = Panicked no_ports"
  by (simp_all add: run_eval)

lemma demo_startup_both:
  "Run_startup demo_pkg demo_env (demo_app 8080 8443) (initial 0) =
     (Inr (demo_conf 8080 8443, demo_handler),
      \<lparr>app_state = 1, events = demo_startup 8080 8443, main = Startup,
       listener = (\<lambda>_. Absent), wg = 0\<rparr>)"
  by (simp add: run_eval)

lemma demo_startup_http:
  "Run_startup demo_pkg demo_env (demo_app 8080 0) (initial 0) =
     (Inr (demo_conf 8080 0, demo_handler),
      \<lparr>app_state = 1, events = demo_startup 8080 0, main = Startup,
       listener = (\<lambda>_. Absent), wg = 0\<rparr>)"
  by (simp add: run_eval)

lemmas step_eval = step_def step_main_def step_listener_def spawn_def call_def tls_files_def
  demo_app_def demo_env_def demo_conf_def

lemma demo_both_exec:
  "exec (step demo_env (demo_app 8080 8443) (demo_conf 8080 8443) demo_handler)
     [Main, Listener HTTP, Main, Listener TLS, Listener HTTP, Listener HTTP, Main,
      Listener TLS, Listener TLS, Main, Main]
     \<lparr>app_state = a, events = evs, main = SpawnHTTP, listener = (\<lambda>_. Absent), wg = 0\<rparr> =
   \<lparr>app_state = a, events = evs @
      [Go HTTP, Listen HTTP (server (demo_conf 8080 8443) demo_handler HTTP) None,
       Go TLS, Listen TLS (server (demo_conf 8080 8443) demo_handler TLS) (Some (''cert.pem'', ''key.pem'')),
       ListenReturned HTTP, Done HTTP, ListenReturned TLS, Done TLS, WaitReturned,
       Call OnHandleStopped, Return OnHandleStopped Nothing],
     main = Returned, listener = (\<lambda>_. Absent)(HTTP := Exited, TLS := Exited), wg = 0\<rparr>"
  by (simp add: step_eval)

lemma demo_both:
  "events (Run demo_pkg demo_env (demo_app 8080 8443) 0
     [Main, Listener HTTP, Main, Listener TLS, Listener HTTP, Listener HTTP, Main,
      Listener TLS, Listener TLS, Main, Main]) =
   demo_startup 8080 8443 @
     [Go HTTP, Listen HTTP (server (demo_conf 8080 8443) demo_handler HTTP) None,
      Go TLS, Listen TLS (server (demo_conf 8080 8443) demo_handler TLS) (Some (''cert.pem'', ''key.pem'')),
      ListenReturned HTTP, Done HTTP, ListenReturned TLS, Done TLS, WaitReturned,
      Call OnHandleStopped, Return OnHandleStopped Nothing]"
  "main (Run demo_pkg demo_env (demo_app 8080 8443) 0
     [Main, Listener HTTP, Main, Listener TLS, Listener HTTP, Listener HTTP, Main,
      Listener TLS, Listener TLS, Main, Main]) = Returned"
  by (simp_all add: Run_def demo_startup_both demo_both_exec del: exec.simps)

lemma demo_http_exec:
  "exec (step demo_env app (demo_conf 8080 0) demo_handler) [Main, Main, Main]
     \<lparr>app_state = a, events = evs, main = SpawnHTTP, listener = (\<lambda>_. Absent), wg = 0\<rparr> =
   \<lparr>app_state = a, events = evs @ [Go HTTP], main = Waiting,
     listener = (\<lambda>_. Absent)(HTTP := Created), wg = 1\<rparr>"
  by (simp add: step_eval)

lemma demo_http_only:
  "events (Run demo_pkg demo_env (demo_app 8080 0) 0 [Main, Main, Main]) =
     demo_startup 8080 0 @ [Go HTTP]"
  "main (Run demo_pkg demo_env (demo_app 8080 0) 0 [Main, Main, Main]) = Waiting"
  by (simp_all add: Run_def demo_startup_http demo_http_exec del: exec.simps)

lemma demo_server:
  "server (demo_conf 8080 8443) demo_handler HTTP =
     \<lparr>srv_Timeout = 10, srv_Addr = ''localhost:8080'', srv_Handler = demo_handler,
      srv_WriteTimeout = 6, srv_ReadTimeout = 5\<rparr>"
  "server (demo_conf 8080 8443) demo_handler TLS =
     \<lparr>srv_Timeout = 10, srv_Addr = ''localhost:8443'', srv_Handler = demo_handler,
      srv_WriteTimeout = 6, srv_ReadTimeout = 5\<rparr>"
  by (simp_all add: server_def demo_conf_def strconv_Itoa_def digit_def)

lemma demo_app_callbacks:
  "LoadConfig (demo_app p t) s = (Inr 7, s)"
  "ConfigureLogging (demo_app p t) 7 s = (Inr (), s)"
  "InitResources (demo_app p t) 7 s = (Inr (), Suc s)"
  "ConfigureRoutes (demo_app p t) (mux_NewRouter demo_env) 7 s = (Inr [''/health''], s)"
  "SetMiddleware (demo_app p t) 7 s = (Inr [''recovery'', ''logging''], s)"
  "GetServerConf (demo_app p t) 7 s = (Inr (demo_conf p t), s)"
  "HandleStart (demo_app p t) (Host (demo_conf p t)) (Port (demo_conf p t)) (TLSPort (demo_conf p t)) s =
     (Inr (), s)"
  by (simp_all add: demo_app_def demo_env_def)

lemma counting_callbacks:
  "LoadConfig (panics_at 8) 0 = (Inr 7, 1)"
  "ConfigureLogging (panics_at 8) 7 1 = (Inr (), 2)"
  "InitResources (panics_at 8) 7 2 = (Inr (), 3)"
  "ConfigureRoutes (panics_at 8) (mux_NewRouter demo_env) 7 3 = (Inr [''/health''], 4)"
  "SetMiddleware (panics_at 8) 7 4 = (Inr [''recovery'', ''logging''], 5)"
  "GetServerConf (panics_at 8) 7 5 = (Inr (demo_conf 8080 0), 6)"
  "HandleStart (panics_at 8) (Host (demo_conf 8080 0)) (Port (demo_conf 8080 0))
     (TLSPort (demo_conf 8080 0)) 6 = (Inr (), 7)"
  by (simp_all add: panics_at_def demo_env_def)

lemma counting_startup:
  "Run_startup demo_pkg demo_env (panics_at 8) (initial 0) =
     (Inr (demo_conf 8080 0, demo_handler),
      \<lparr>app_state = 7, events = demo_startup 8080 0, main = Startup,
       listener = (\<lambda>_. Absent), wg = 0\<rparr>)"
  by (simp add: run_eval panics_at_def)

lemma counting_run:
  "events (Run demo_pkg demo_env (panics_at 8) 0 [Main, Main, Main]) =
     demo_startup 8080 0 @ [Go HTTP]"
  by (simp_all add: Run_def counting_startup demo_http_exec del: exec.simps)

lemma counting_state:
  "app_state (Run demo_pkg demo_env (panics_at 8) 0 []) = 7"
  by (simp add: Run_def counting_startup)

section \<open>The claims\<close>

subsection \<open>Recovery middleware\<close>

text \<open>
  C1, as the code has it. \<open>ServeHTTP\<close> defers the recovery callback itself, so a non-nil
  callback is invoked exactly once for every request, with the response writer and the
  request, when the next handler has returned or has raised a fault, and before any fault
  leaves \<open>ServeHTTP\<close>. \<open>ServeHTTP\<close> then completes normally when the callback returns and
  either there was no fault or the callback called \<open>recover()\<close>; a fault that the callback
  does not recover, or one that the callback raises, propagates. Without a callback
  nothing is deferred and a fault of the next handler propagates unhandled.
\<close>

theorem recovery_deferred:
  assumes "next rw r (heap w) = (res, hn, dn)"
  shows "(\<forall>f out hr dr. recoverFunc rec = Some f \<and> f rw r (raised res) hn = (out, hr, dr) \<longrightarrow>
            recoveryMiddleware_ServeHTTP rec rw r next w =
              ((case out of Inl e \<Rightarrow> Inl e | Inr recovered \<Rightarrow> if recovered then Inr () else res),
               \<lparr>clock = clock w + int dn + int dr,
                trace = trace w @ [Invoke (Next rw r), Finish (Next rw r) (raised res),
                                   Invoke (Recover rw r), Finish (Recover rw r) (raised out)],
                heap = hr\<rparr>))
       \<and> (recoverFunc rec = None \<longrightarrow>
            recoveryMiddleware_ServeHTTP rec rw r next w =
              (res, \<lparr>clock = clock w + int dn,
                     trace = trace w @ [Invoke (Next rw r), Finish (Next rw r) (raised res)],
                     heap = hn\<rparr>))"
  using assms
  by (auto simp: recoveryMiddleware_ServeHTTP_def run_deferred_def invoke_def split: sum.splits)

theorem recovery_deferred_witness:
  "panicking_handler (HttpWriter 0) sample_request (heap sample_world) =
     (Inl ''boom'', heap sample_world, 40) \<and>
   recoveryMiddleware_ServeHTTP (RecoveryMiddleware (Some recovering))
       (HttpWriter 0) sample_request panicking_handler sample_world =
     (Inr (),
      \<lparr>clock = 1041,
       trace = [Invoke (Next (HttpWriter 0) sample_request),
                Finish (Next (HttpWriter 0) sample_request) (Some ''boom''),
                Invoke (Recover (HttpWriter 0) sample_request),
                Finish (Recover (HttpWriter 0) sample_request) None],
       heap = \<lparr>status = (\<lambda>_. 0)(0 := 500),
               request = (\<lambda>_. \<lparr>Method = ''GET'', Path = ''/health''\<rparr>), user = ()\<rparr>\<rparr>) \<and>
   recoveryMiddleware_ServeHTTP (RecoveryMiddleware None)
       (HttpWriter 0) sample_request panicking_handler sample_world =
     (Inl ''boom'',
      \<lparr>clock = 1040,
       trace = [Invoke (Next (HttpWriter 0) sample_request),
                Finish (Next (HttpWriter 0) sample_request) (Some ''boom'')],
       heap = heap sample_world\<rparr>)"
proof -
  have h: "panicking_handler (HttpWriter 0) sample_request (heap sample_world) =
     (Inl ''boom'', heap sample_world, 40)"
    by (simp add: panicking_handler_def)
  have r: "recovering (HttpWriter 0) sample_request (raised (Inl ''boom'' :: fault + unit)) (heap sample_world) =
     (Inr True,
      \<lparr>status = (\<lambda>_. 0)(0 := 500),
       request = (\<lambda>_. \<lparr>Method = ''GET'', Path = ''/health''\<rparr>), user = ()\<rparr>, 1)"
    by (simp add: recovering_def sample_world_def)
  from recovery_deferred [where ?next = panicking_handler and rw = "HttpWriter 0"
      and r = sample_request and w = sample_world and res = "Inl ''boom''"
      and hn = "heap sample_world" and dn = 40 and rec = "RecoveryMiddleware (Some recovering)"]
    recovery_deferred [where ?next = panicking_handler and rw = "HttpWriter 0"
      and r = sample_request and w = sample_world and res = "Inl ''boom''"
      and hn = "heap sample_world" and dn = 40 and rec = "RecoveryMiddleware None"] h r
  show ?thesis
    by (simp add: RecoveryMiddleware_def sample_world_def)
qed

text \<open>
  C1 as stated fails twice. A handler that returns normally still has the callback
  invoked, with no fault in flight; and after a handler that panics, a callback that
  returns without calling \<open>recover()\<close> is invoked, but \<open>ServeHTTP\<close> does not complete
  normally: the panic propagates.
\<close>

theorem recovery_callback_counterexample:
  "trace (snd (recoveryMiddleware_ServeHTTP (RecoveryMiddleware (Some silent_recover))
           (HttpWriter 0) sample_request writes_200 sample_world)) =
     [Invoke (Next (HttpWriter 0) sample_request), Finish (Next (HttpWriter 0) sample_request) None,
      Invoke (Recover (HttpWriter 0) sample_request), Finish (Recover (HttpWriter 0) sample_request) None] \<and>
   fst (recoveryMiddleware_ServeHTTP (RecoveryMiddleware (Some silent_recover))
           (HttpWriter 0) sample_request panicking_handler sample_world) = Inl ''boom''"
  by (simp add: recoveryMiddleware_ServeHTTP_def RecoveryMiddleware_def run_deferred_def invoke_def
      sample_defs)

subsection \<open>Logging middleware\<close>





subsection \<open>The lifecycle\<close>

text \<open>
  C2. When the \<open>ServerConfig\<close> that \<open>GetServerConf\<close> returned has no positive port, \<open>Run\<close>
  ends in a panic: its own, or that of \<open>HandleStart\<close> if that callback panics first.
  \<open>HandleStart\<close> has been called, no goroutine was created, and \<open>HandleStopped\<close> is not
  called, whatever the schedule.
\<close>

theorem Run_no_ports:
  assumes "Return (OnGetServerConf c) (Conf sc) \<in> set (events (Run pkg env app s sched))"
    and "Port sc \<le> 0" and "TLSPort sc \<le> 0"
  shows "(main (Run pkg env app s sched) = Panicked no_ports \<or>
          (\<exists>e. main (Run pkg env app s sched) = Panicked e \<and>
               Panics (OnHandleStart (Host sc) (Port sc) (TLSPort sc)) e
                 \<in> set (events (Run pkg env app s sched)))) \<and>
         Call (OnHandleStart (Host sc) (Port sc) (TLSPort sc))
           \<in> set (events (Run pkg env app s sched)) \<and>
         (\<forall>k. Go k \<notin> set (events (Run pkg env app s sched))) \<and>
         (\<forall>k. listener (Run pkg env app s sched) k = Absent) \<and>
         Call OnHandleStopped \<notin> set (events (Run pkg env app s sched))"
proof -
  obtain res st0 where S: "Run_startup pkg env app (initial s) = (res, st0)"
    by force
  show ?thesis
  proof (cases res)
    case (Inl e)
    with S have R: "Run pkg env app s sched = st0\<lparr>main := Panicked e\<rparr>"
      by (simp add: Run_aborted)
    from Run_startup_cases [OF S] Inl assms show ?thesis
      unfolding R by (elim conjE disjE exE; simp add: initial_def)
  next
    case (Inr p)
    obtain sc' n where p: "p = (sc', n)" by force
    note S' = S [unfolded Inr p]
    from Run_listening(2) [OF S'] obtain rest where
      rest: "events (Run pkg env app s sched) = events st0 @ rest"
        "\<forall>e \<in> set rest. \<not> startup_event e" by blast
    from Run_startup_ok [OF S'] assms(1) have "sc' = sc \<and> (0 < Port sc' \<or> 0 < TLSPort sc')"
      unfolding rest(1) using rest(2) by (auto simp: startup_event_later)
    with assms(2,3) have False by auto
    then show ?thesis ..
  qed
qed

theorem Run_no_ports_witness:
  "Return (OnGetServerConf 7) (Conf (demo_conf 0 0))
     \<in> set (events (Run demo_pkg demo_env (demo_app 0 0) 0 [Main, Listener HTTP])) \<and>
   Port (demo_conf 0 0) \<le> 0 \<and> TLSPort (demo_conf 0 0) \<le> 0 \<and>
   main (Run demo_pkg demo_env (demo_app 0 0) 0 [Main, Listener HTTP]) = Panicked no_ports \<and>
   Call (OnHandleStart ''localhost'' 0 0)
     \<in> set (events (Run demo_pkg demo_env (demo_app 0 0) 0 [Main, Listener HTTP])) \<and>
   Go HTTP \<notin> set (events (Run demo_pkg demo_env (demo_app 0 0) 0 [Main, Listener HTTP])) \<and>
   Go TLS \<notin> set (events (Run demo_pkg demo_env (demo_app 0 0) 0 [Main, Listener HTTP])) \<and>
   Call OnHandleStopped
     \<notin> set (events (Run demo_pkg demo_env (demo_app 0 0) 0 [Main, Listener HTTP]))"
proof -
  have a: "Return (OnGetServerConf 7) (Conf (demo_conf 0 0))
     \<in> set (events (Run demo_pkg demo_env (demo_app 0 0) 0 [Main, Listener HTTP]))"
    by (simp add: demo_no_ports demo_startup_def)
  have b: "Port (demo_conf 0 0) \<le> 0" and c: "TLSPort (demo_conf 0 0) \<le> 0"
    by (simp_all add: demo_conf_def)
  from Run_no_ports [OF a b c] a b c show ?thesis
    by (simp add: demo_no_ports demo_conf_def)
qed



text \<open>
  C4, as the code has it. In every run in which \<open>LoadConfig\<close>, \<open>ConfigureLogging\<close>,
  \<open>InitResources\<close>, \<open>ConfigureRoutes\<close>, \<open>SetMiddleware\<close>, \<open>GetServerConf\<close> and \<open>HandleStart\<close> each
  return normally when run in this order, each on the application state that its
  predecessor left and the four that take the configuration on the value that
  \<open>LoadConfig\<close> returned, the trace begins with exactly these seven calls, in this order,
  each returning before the next is made; none of them is called again; every \<open>go\<close>
  statement comes after them; and the application state that \<open>Run\<close> has before any
  goroutine is the one the seventh left.
\<close>

theorem lifecycle_order:
  assumes "LoadConfig app s = (Inr c, s_load)"
    and "ConfigureLogging app c s_load = (Inr (), s_log)"
    and "InitResources app c s_log = (Inr (), s_res)"
    and "ConfigureRoutes app (mux_NewRouter env) c s_res = (Inr r, s_routes)"
    and "SetMiddleware app c s_routes = (Inr hs, s_mw)"
    and "GetServerConf app c s_mw = (Inr sc, s_conf)"
    and "HandleStart app (Host sc) (Port sc) (TLSPort sc) s_conf = (Inr (), s_start)"
  shows "(\<exists>rest.
     events (Run pkg env app s sched) =
       [Call OnLoadConfig, Return OnLoadConfig (Config c),
        Call (OnConfigureLogging c), Return (OnConfigureLogging c) Nothing,
        Call (OnInitResources c), Return (OnInitResources c) Nothing,
        Call (OnConfigureRoutes (mux_NewRouter env) c),
        Return (OnConfigureRoutes (mux_NewRouter env) c) (Router r),
        Call (OnSetMiddleware c), Return (OnSetMiddleware c) (Units hs),
        Call (OnGetServerConf c), Return (OnGetServerConf c) (Conf sc),
        Call (OnHandleStart (Host sc) (Port sc) (TLSPort sc)),
        Return (OnHandleStart (Host sc) (Port sc) (TLSPort sc)) Nothing] @ rest \<and>
     (\<forall>ev \<in> set rest. \<not> startup_event ev)) \<and>
   app_state (Run pkg env app s []) = s_start"
proof (cases "Port sc \<le> 0 \<and> TLSPort sc \<le> 0")
  case True
  with Run_startup_normal [OF assms, of pkg] show ?thesis
    by (simp add: Run_def)
next
  case False
  with Run_startup_normal [OF assms, of pkg] have
    S: "Run_startup pkg env app (initial s) =
     (Inr (sc, map Unit hs @ [Wrap r]),
      \<lparr>app_state = s_start,
       events = [Call OnLoadConfig, Return OnLoadConfig (Config c),
                 Call (OnConfigureLogging c), Return (OnConfigureLogging c) Nothing,
                 Call (OnInitResources c), Return (OnInitResources c) Nothing,
                 Call (OnConfigureRoutes (mux_NewRouter env) c),
                 Return (OnConfigureRoutes (mux_NewRouter env) c) (Router r),
                 Call (OnSetMiddleware c), Return (OnSetMiddleware c) (Units hs),
                 Call (OnGetServerConf c), Return (OnGetServerConf c) (Conf sc),
                 Call (OnHandleStart (Host sc) (Port sc) (TLSPort sc)),
                 Return (OnHandleStart (Host sc) (Port sc) (TLSPort sc)) Nothing],
       main = Startup, listener = (\<lambda>_. Absent), wg = 0\<rparr>)"
    by simp
  from Run_listening(2) [OF S, of sched] have a: "\<exists>rest.
     events (Run pkg env app s sched) =
       [Call OnLoadConfig, Return OnLoadConfig (Config c),
        Call (OnConfigureLogging c), Return (OnConfigureLogging c) Nothing,
        Call (OnInitResources c), Return (OnInitResources c) Nothing,
        Call (OnConfigureRoutes (mux_NewRouter env) c),
        Return (OnConfigureRoutes (mux_NewRouter env) c) (Router r),
        Call (OnSetMiddleware c), Return (OnSetMiddleware c) (Units hs),
        Call (OnGetServerConf c), Return (OnGetServerConf c) (Conf sc),
        Call (OnHandleStart (Host sc) (Port sc) (TLSPort sc)),
        Return (OnHandleStart (Host sc) (Port sc) (TLSPort sc)) Nothing] @ rest \<and>
     (\<forall>ev \<in> set rest. \<not> startup_event ev)"
    by simp
  have b: "app_state (Run pkg env app s []) = s_start"
    by (simp add: Run_def S)
  from a b show ?thesis ..
qed

theorem lifecycle_order_witness:
  "events (Run demo_pkg demo_env (panics_at 8) 0 [Main, Main, Main]) =
     [Call OnLoadConfig, Return OnLoadConfig (Config 7),
      Call (OnConfigureLogging 7), Return (OnConfigureLogging 7) Nothing,
      Call (OnInitResources 7), Return (OnInitResources 7) Nothing,
      Call (OnConfigureRoutes [] 7), Return (OnConfigureRoutes [] 7) (Router [''/health'']),
      Call (OnSetMiddleware 7), Return (OnSetMiddleware 7) (Units [''recovery'', ''logging'']),
      Call (OnGetServerConf 7), Return (OnGetServerConf 7) (Conf (demo_conf 8080 0)),
      Call (OnHandleStart ''localhost'' 8080 0), Return (OnHandleStart ''localhost'' 8080 0) Nothing,
      Go HTTP] \<and>
   app_state (Run demo_pkg demo_env (panics_at 8) 0 []) = 7"
  using lifecycle_order [where pkg = demo_pkg and sched = "[Main, Main, Main]",
      OF counting_callbacks]
  by (simp add: counting_run counting_state demo_startup_def)

text \<open>
  C4 as stated, for every run, fails: when \<open>InitResources\<close> panics, \<open>Run\<close> ends there, and
  \<open>ConfigureRoutes\<close>, \<open>SetMiddleware\<close>, \<open>GetServerConf\<close> and \<open>HandleStart\<close> are not invoked at
  all.
\<close>

theorem lifecycle_order_counterexample:
  "events (Run demo_pkg demo_env (panics_at 2) 0 [Main, Main, Listener HTTP]) =
     [Call OnLoadConfig, Return OnLoadConfig (Config 7),
      Call (OnConfigureLogging 7), Return (OnConfigureLogging 7) Nothing,
      Call (OnInitResources 7), Panics (OnInitResources 7) ''no database''] \<and>
   main (Run demo_pkg demo_env (panics_at 2) 0 [Main, Main, Listener HTTP]) =
     Panicked ''no database'' \<and>
   app_state (Run demo_pkg demo_env (panics_at 2) 0 [Main, Main, Listener HTTP]) = 3"
  by (simp add: run_eval panics_at_def)

text \<open>
  C7. The handler that \<open>Run\<close> has when it reaches its first \<open>go\<close> statement is the list that
  \<open>SetMiddleware\<close> returned, in its order, around the router as \<open>ConfigureRoutes\<close> left it:
  the first unit supplied is the outermost layer and the router the innermost. No
  goroutine exists when it is built, and it is the handler of every server that a
  listener goroutine builds, whatever the schedule.
\<close>

theorem chain_built_before_listening:
  assumes "Run_startup pkg env app (initial s) = (Inr (serverConfig, n), st0)"
  shows "\<exists>c r hs.
     Return (OnConfigureRoutes (mux_NewRouter env) c) (Router r) \<in> set (events st0) \<and>
     Return (OnSetMiddleware c) (Units hs) \<in> set (events st0) \<and>
     n = map Unit hs @ [Wrap r] \<and>
     (\<forall>k. Go k \<notin> set (events st0)) \<and>
     (\<forall>sched k srv f. Listen k srv f \<in> set (events (Run pkg env app s sched)) \<longrightarrow>
        srv_Handler srv = n)"
proof -
  from Run_startup_ok [OF assms] obtain c r hs where
    a: "n = map Unit hs @ [Wrap r]"
      "Return (OnConfigureRoutes (mux_NewRouter env) c) (Router r) \<in> set (events st0)"
      "Return (OnSetMiddleware c) (Units hs) \<in> set (events st0)"
    by auto
  from Run_startup_events [OF assms] have b: "\<forall>k. Go k \<notin> set (events st0)"
    by force
  have "\<And>sched k srv f. Listen k srv f \<in> set (events (Run pkg env app s sched)) \<Longrightarrow>
          srv_Handler srv = n"
  proof -
    fix sched k srv f
    assume l: "Listen k srv f \<in> set (events (Run pkg env app s sched))"
    from Run_listening(1) [OF assms, of sched] have "inv_events serverConfig n k (Run pkg env app s sched)"
      by (simp add: run_inv_def)
    with l have "srv = server serverConfig n k" by (simp add: inv_events_def)
    then show "srv_Handler srv = n" by (simp add: server_def)
  qed
  with a b show ?thesis by blast
qed

theorem chain_built_before_listening_witness:
  "Run_startup demo_pkg demo_env (demo_app 8080 8443) (initial 0) =
     (Inr (demo_conf 8080 8443, [Unit ''recovery'', Unit ''logging'', Wrap [''/health'']]),
      \<lparr>app_state = 1, events = demo_startup 8080 8443, main = Startup,
       listener = (\<lambda>_. Absent), wg = 0\<rparr>) \<and>
   Listen TLS (server (demo_conf 8080 8443) demo_handler TLS) (Some (''cert.pem'', ''key.pem''))
     \<in> set (events (Run demo_pkg demo_env (demo_app 8080 8443) 0
          [Main, Listener HTTP, Main, Listener TLS, Listener HTTP, Listener HTTP, Main,
           Listener TLS, Listener TLS, Main, Main])) \<and>
   srv_Handler (server (demo_conf 8080 8443) demo_handler TLS) =
     [Unit ''recovery'', Unit ''logging'', Wrap [''/health'']]"
  using chain_built_before_listening [OF demo_startup_both]
  by (simp add: demo_startup_both demo_both demo_handler_def server_def)

text \<open>
  C8, as the code has it. In every run in which the callbacks up to \<open>GetServerConf\<close> return
  normally, the \<open>ServerConfig\<close> returned has at least one positive port, and \<open>HandleStart\<close>
  returns normally: a goroutine is created at most once for each scheme, and only for
  a positive port; once the main goroutine has taken two steps, one goroutine has been
  created for plain HTTP if and only if \<open>Port > 0\<close>, and one for TLS if and only if
  \<open>TLSPort > 0\<close>. A goroutine listens once, on a server with the address \<open>Host:Port\<close>
  (\<open>Host:TLSPort\<close> for TLS), the shared handler (the units that \<open>SetMiddleware\<close> returned
  around the router) and the three timeouts of the configuration, and for TLS with the
  certificate and key files of the configuration.
\<close>

theorem listeners_per_port:
  assumes "LoadConfig app s = (Inr c, s_load)"
    and "ConfigureLogging app c s_load = (Inr (), s_log)"
    and "InitResources app c s_log = (Inr (), s_res)"
    and "ConfigureRoutes app (mux_NewRouter env) c s_res = (Inr r, s_routes)"
    and "SetMiddleware app c s_routes = (Inr hs, s_mw)"
    and "GetServerConf app c s_mw = (Inr serverConfig, s_conf)"
    and "HandleStart app (Host serverConfig) (Port serverConfig) (TLSPort serverConfig) s_conf =
           (Inr (), s_start)"
    and "0 < Port serverConfig \<or> 0 < TLSPort serverConfig"
  shows "count_list (events (Run pkg env app s sched)) (Go HTTP) \<le> 1 \<and>
    count_list (events (Run pkg env app s sched)) (Go TLS) \<le> 1 \<and>
    (Go HTTP \<in> set (events (Run pkg env app s sched)) \<longrightarrow> 0 < Port serverConfig) \<and>
    (Go TLS \<in> set (events (Run pkg env app s sched)) \<longrightarrow> 0 < TLSPort serverConfig) \<and>
    (2 \<le> count_list sched Main \<longrightarrow>
       count_list (events (Run pkg env app s sched)) (Go HTTP) = (if 0 < Port serverConfig then 1 else 0) \<and>
       count_list (events (Run pkg env app s sched)) (Go TLS) = (if 0 < TLSPort serverConfig then 1 else 0)) \<and>
    (\<forall>k srv f. Listen k srv f \<in> set (events (Run pkg env app s sched)) \<longrightarrow>
       Go k \<in> set (events (Run pkg env app s sched)) \<and>
       count_list (events (Run pkg env app s sched)) (Listen k srv f) = 1 \<and>
       srv = \<lparr>srv_Timeout = GracefulTimeout serverConfig,
              srv_Addr = Host serverConfig @ '':'' @
                strconv_Itoa (case k of HTTP \<Rightarrow> Port serverConfig | TLS \<Rightarrow> TLSPort serverConfig),
              srv_Handler = map Unit hs @ [Wrap r],
              srv_WriteTimeout = WriteTimeout serverConfig,
              srv_ReadTimeout = ReadTimeout serverConfig\<rparr> \<and>
       f = (case k of HTTP \<Rightarrow> None
            | TLS \<Rightarrow> Some (TLSCertFile serverConfig, TLSPrivateKeyFile serverConfig)))"
proof -
  let ?R = "Run pkg env app s sched"
  let ?n = "map Unit hs @ [Wrap r]"
  obtain st0 where S: "Run_startup pkg env app (initial s) = (Inr (serverConfig, ?n), st0)"
    using Run_startup_normal [OF assms(1-7), of pkg] assms(8) by auto
  from Run_listening(1) [OF S, of sched] have
    T: "inv_threads serverConfig ?R" and E: "\<And>k. inv_events serverConfig ?n k ?R"
    by (simp_all add: run_inv_def)
  have R: "?R = exec (step env app serverConfig ?n) sched (st0\<lparr>main := SpawnHTTP\<rparr>)"
    using S by (simp add: Run_def)
  have go: "\<And>k. count_list (events ?R) (Go k) = (if listener ?R k = Absent then 0 else 1)"
    using E by (simp add: inv_events_def)
  have go_in: "\<And>k. Go k \<in> set (events ?R) \<longleftrightarrow> listener ?R k \<noteq> Absent"
  proof -
    fix k
    from go [of k] count_list_0_iff [of "events ?R" "Go k"]
    show "Go k \<in> set (events ?R) \<longleftrightarrow> listener ?R k \<noteq> Absent"
      by (auto split: if_splits)
  qed
  have http: "listener ?R HTTP \<noteq> Absent \<Longrightarrow> 0 < Port serverConfig"
    using T by (cases "main ?R = SpawnHTTP") (auto simp: inv_threads_def)
  have tls: "listener ?R TLS \<noteq> Absent \<Longrightarrow> 0 < TLSPort serverConfig"
    using T by (cases "main ?R = SpawnHTTP \<or> main ?R = SpawnTLS") (auto simp: inv_threads_def)
  have spawned: "2 \<le> count_list sched Main \<Longrightarrow>
      (listener ?R HTTP \<noteq> Absent \<longleftrightarrow> 0 < Port serverConfig) \<and>
      (listener ?R TLS \<noteq> Absent \<longleftrightarrow> 0 < TLSPort serverConfig)"
  proof -
    assume "2 \<le> count_list sched Main"
    with exec_progress [where st = "st0\<lparr>main := SpawnHTTP\<rparr>" and env = env and app = app
        and sc = serverConfig and n = ?n and sched = sched]
    have "2 \<le> past_spawn (main ?R)" unfolding R by simp
    then have "main ?R \<noteq> SpawnHTTP \<and> main ?R \<noteq> SpawnTLS" by (rule past_spawn_2)
    with T show ?thesis by (simp add: inv_threads_def)
  qed
  have listen: "\<And>k srv f. Listen k srv f \<in> set (events ?R) \<Longrightarrow>
      srv = server serverConfig ?n k \<and> f = tls_files serverConfig k \<and>
      count_list (events ?R) (Listen k srv f) = 1 \<and> listener ?R k \<noteq> Absent"
  proof -
    fix k srv f
    assume l: "Listen k srv f \<in> set (events ?R)"
    with E [of k] have eq: "srv = server serverConfig ?n k" "f = tls_files serverConfig k"
      by (simp_all add: inv_events_def)
    from l have "count_list (events ?R) (Listen k srv f) \<noteq> 0"
      by (simp add: count_list_0_iff)
    with E [of k] eq show "srv = server serverConfig ?n k \<and> f = tls_files serverConfig k \<and>
      count_list (events ?R) (Listen k srv f) = 1 \<and> listener ?R k \<noteq> Absent"
      by (auto simp: inv_events_def split: if_splits)
  qed
  have 1: "count_list (events ?R) (Go HTTP) \<le> 1" "count_list (events ?R) (Go TLS) \<le> 1"
    using go by simp_all
  have 2: "Go HTTP \<in> set (events ?R) \<longrightarrow> 0 < Port serverConfig"
    "Go TLS \<in> set (events ?R) \<longrightarrow> 0 < TLSPort serverConfig"
    using go_in http tls by simp_all
  have 3: "2 \<le> count_list sched Main \<longrightarrow>
       count_list (events ?R) (Go HTTP) = (if 0 < Port serverConfig then 1 else 0) \<and>
       count_list (events ?R) (Go TLS) = (if 0 < TLSPort serverConfig then 1 else 0)"
    using spawned go by auto
  have 4: "\<forall>k srv f. Listen k srv f \<in> set (events ?R) \<longrightarrow>
       Go k \<in> set (events ?R) \<and>
       count_list (events ?R) (Listen k srv f) = 1 \<and>
       srv = \<lparr>srv_Timeout = GracefulTimeout serverConfig,
              srv_Addr = Host serverConfig @ '':'' @
                strconv_Itoa (case k of HTTP \<Rightarrow> Port serverConfig | TLS \<Rightarrow> TLSPort serverConfig),
              srv_Handler = map Unit hs @ [Wrap r],
              srv_WriteTimeout = WriteTimeout serverConfig,
              srv_ReadTimeout = ReadTimeout serverConfig\<rparr> \<and>
       f = (case k of HTTP \<Rightarrow> None
            | TLS \<Rightarrow> Some (TLSCertFile serverConfig, TLSPrivateKeyFile serverConfig))"
    using listen go_in by (simp add: server_def tls_files_def)
  from 1 2 3 4 show ?thesis by blast
qed

theorem listeners_per_port_witness:
  "count_list (events (Run demo_pkg demo_env (demo_app 8080 0) 0 [Main, Main, Main])) (Go HTTP) = 1 \<and>
   count_list (events (Run demo_pkg demo_env (demo_app 8080 0) 0 [Main, Main, Main])) (Go TLS) = 0 \<and>
   count_list (events (Run demo_pkg demo_env (demo_app 8080 8443) 0
     [Main, Listener HTTP, Main, Listener TLS, Listener HTTP, Listener HTTP, Main,
      Listener TLS, Listener TLS, Main, Main])) (Go HTTP) = 1 \<and>
   count_list (events (Run demo_pkg demo_env (demo_app 8080 8443) 0
     [Main, Listener HTTP, Main, Listener TLS, Listener HTTP, Listener HTTP, Main,
      Listener TLS, Listener TLS, Main, Main])) (Go TLS) = 1 \<and>
   Listen HTTP
     \<lparr>srv_Timeout = 10, srv_Addr = ''localhost:8080'', srv_Handler = demo_handler,
      srv_WriteTimeout = 6, srv_ReadTimeout = 5\<rparr> None
     \<in> set (events (Run demo_pkg demo_env (demo_app 8080 8443) 0
          [Main, Listener HTTP, Main, Listener TLS, Listener HTTP, Listener HTTP, Main,
           Listener TLS, Listener TLS, Main, Main])) \<and>
   Listen TLS
     \<lparr>srv_Timeout = 10, srv_Addr = ''localhost:8443'', srv_Handler = demo_handler,
      srv_WriteTimeout = 6, srv_ReadTimeout = 5\<rparr> (Some (''cert.pem'', ''key.pem''))
     \<in> set (events (Run demo_pkg demo_env (demo_app 8080 8443) 0
          [Main, Listener HTTP, Main, Listener TLS, Listener HTTP, Listener HTTP, Main,
           Listener TLS, Listener TLS, Main, Main]))"
proof -
  let ?sched = "[Main, Listener HTTP, Main, Listener TLS, Listener HTTP, Listener HTTP, Main,
                 Listener TLS, Listener TLS, Main, Main]"
  let ?R = "Run demo_pkg demo_env (demo_app 8080 8443) 0 ?sched"
  let ?Q = "Run demo_pkg demo_env (demo_app 8080 0) 0 [Main, Main, Main]"
  have p: "0 < Port (demo_conf 8080 8443) \<or> 0 < TLSPort (demo_conf 8080 8443)"
    and q: "0 < Port (demo_conf 8080 0) \<or> 0 < TLSPort (demo_conf 8080 0)"
    by (simp_all add: demo_conf_def)
  note T = listeners_per_port [where pkg = demo_pkg and sched = ?sched and s = 0,
      OF demo_app_callbacks p]
  note U = listeners_per_port [where pkg = demo_pkg and sched = "[Main, Main, Main]" and s = 0,
      OF demo_app_callbacks q]
  have c: "2 \<le> count_list ?sched Main" and d: "2 \<le> count_list [Main, Main, Main] Main"
    by simp_all
  from T c have g:
    "count_list (events ?R) (Go HTTP) = (if 0 < Port (demo_conf 8080 8443) then 1 else 0)"
    "count_list (events ?R) (Go TLS) = (if 0 < TLSPort (demo_conf 8080 8443) then 1 else 0)"
    by blast+
  from U d have h:
    "count_list (events ?Q) (Go HTTP) = (if 0 < Port (demo_conf 8080 0) then 1 else 0)"
    "count_list (events ?Q) (Go TLS) = (if 0 < TLSPort (demo_conf 8080 0) then 1 else 0)"
    by blast+
  have l: "Listen HTTP (server (demo_conf 8080 8443) demo_handler HTTP) None \<in> set (events ?R)"
    "Listen TLS (server (demo_conf 8080 8443) demo_handler TLS) (Some (''cert.pem'', ''key.pem''))
       \<in> set (events ?R)"
    by (simp_all add: demo_both)
  from g have g': "count_list (events ?R) (Go HTTP) = 1" "count_list (events ?R) (Go TLS) = 1"
    by (simp_all add: demo_conf_def)
  from h have h': "count_list (events ?Q) (Go HTTP) = 1" "count_list (events ?Q) (Go TLS) = 0"
    by (simp_all add: demo_conf_def)
  from l have l': "Listen HTTP
     \<lparr>srv_Timeout = 10, srv_Addr = ''localhost:8080'', srv_Handler = demo_handler,
      srv_WriteTimeout = 6, srv_ReadTimeout = 5\<rparr> None \<in> set (events ?R)"
    "Listen TLS
     \<lparr>srv_Timeout = 10, srv_Addr = ''localhost:8443'', srv_Handler = demo_handler,
      srv_WriteTimeout = 6, srv_ReadTimeout = 5\<rparr> (Some (''cert.pem'', ''key.pem''))
       \<in> set (events ?R)"
    by (simp_all only: demo_server)
  from h' g' l' show ?thesis
    by blast
qed

text \<open>
  C8 as stated, for every run with a positive port, fails: when \<open>GetServerConf\<close> has
  returned a configuration with port 8080 and \<open>HandleStart\<close> then panics, \<open>Run\<close> ends with
  that panic and no listener goroutine is created.
\<close>

theorem listeners_per_port_counterexample:
  "0 < Port (demo_conf 8080 0) \<and>
   events (Run demo_pkg demo_env (panics_at 6) 0 [Main, Main, Listener HTTP]) =
     [Call OnLoadConfig, Return OnLoadConfig (Config 7),
      Call (OnConfigureLogging 7), Return (OnConfigureLogging 7) Nothing,
      Call (OnInitResources 7), Return (OnInitResources 7) Nothing,
      Call (OnConfigureRoutes [] 7), Return (OnConfigureRoutes [] 7) (Router [''/health'']),
      Call (OnSetMiddleware 7), Return (OnSetMiddleware 7) (Units [''recovery'', ''logging'']),
      Call (OnGetServerConf 7), Return (OnGetServerConf 7) (Conf (demo_conf 8080 0)),
      Call (OnHandleStart ''localhost'' 8080 0),
      Panics (OnHandleStart ''localhost'' 8080 0) ''not ready''] \<and>
   main (Run demo_pkg demo_env (panics_at 6) 0 [Main, Main, Listener HTTP]) =
     Panicked ''not ready'' \<and>
   listener (Run demo_pkg demo_env (panics_at 6) 0 [Main, Main, Listener HTTP]) HTTP = Absent"
  by (simp add: run_eval panics_at_def)

text \<open>
  C9. When one of \<open>LoadConfig\<close>, \<open>ConfigureLogging\<close>, \<open>InitResources\<close>, \<open>ConfigureRoutes\<close>,
  \<open>SetMiddleware\<close> and \<open>GetServerConf\<close> panics, the ones before it having returned, \<open>Run\<close> ends
  with that same panic, whatever the schedule: the trace ends with the call that
  panicked, so no later callback is invoked; no goroutine was created; and the
  application state is the one the panicking callback left.
\<close>

theorem callback_fault_propagates:
  "(LoadConfig app s = (Inl e, sf) \<longrightarrow>
      Run pkg env app s sched =
        \<lparr>app_state = sf,
         events = [Call OnLoadConfig, Panics OnLoadConfig e],
         main = Panicked e, listener = (\<lambda>_. Absent), wg = 0\<rparr>) \<and>
   (LoadConfig app s = (Inr c, s_load) \<and>
    ConfigureLogging app c s_load = (Inl e, sf) \<longrightarrow>
      Run pkg env app s sched =
        \<lparr>app_state = sf,
         events = [Call OnLoadConfig, Return OnLoadConfig (Config c),
                   Call (OnConfigureLogging c), Panics (OnConfigureLogging c) e],
         main = Panicked e, listener = (\<lambda>_. Absent), wg = 0\<rparr>) \<and>
   (LoadConfig app s = (Inr c, s_load) \<and>
    ConfigureLogging app c s_load = (Inr (), s_log) \<and>
    InitResources app c s_log = (Inl e, sf) \<longrightarrow>
      Run pkg env app s sched =
        \<lparr>app_state = sf,
         events = [Call OnLoadConfig, Return OnLoadConfig (Config c),
                   Call (OnConfigureLogging c), Return (OnConfigureLogging c) Nothing,
                   Call (OnInitResources c), Panics (OnInitResources c) e],
         main = Panicked e, listener = (\<lambda>_. Absent), wg = 0\<rparr>) \<and>
   (LoadConfig app s = (Inr c, s_load) \<and>
    ConfigureLogging app c s_load = (Inr (), s_log) \<and>
    InitResources app c s_log = (Inr (), s_res) \<and>
    ConfigureRoutes app (mux_NewRouter env) c s_res = (Inl e, sf) \<longrightarrow>
      Run pkg env app s sched =
        \<lparr>app_state = sf,
         events = [Call OnLoadConfig, Return OnLoadConfig (Config c),
                   Call (OnConfigureLogging c), Return (OnConfigureLogging c) Nothing,
                   Call (OnInitResources c), Return (OnInitResources c) Nothing,
                   Call (OnConfigureRoutes (mux_NewRouter env) c),
                   Panics (OnConfigureRoutes (mux_NewRouter env) c) e],
         main = Panicked e, listener = (\<lambda>_. Absent), wg = 0\<rparr>) \<and>
   (LoadConfig app s = (Inr c, s_load) \<and>
    ConfigureLogging app c s_load = (Inr (), s_log) \<and>
    InitResources app c s_log = (Inr (), s_res) \<and>
    ConfigureRoutes app (mux_NewRouter env) c s_res = (Inr r, s_routes) \<and>
    SetMiddleware app c s_routes = (Inl e, sf) \<longrightarrow>
      Run pkg env app s sched =
        \<lparr>app_state = sf,
         events = [Call OnLoadConfig, Return OnLoadConfig (Config c),
                   Call (OnConfigureLogging c), Return (OnConfigureLogging c) Nothing,
                   Call (OnInitResources c), Return (OnInitResources c) Nothing,
                   Call (OnConfigureRoutes (mux_NewRouter env) c),
                   Return (OnConfigureRoutes (mux_NewRouter env) c) (Router r),
                   Call (OnSetMiddleware c), Panics (OnSetMiddleware c) e],
         main = Panicked e, listener = (\<lambda>_. Absent), wg = 0\<rparr>) \<and>
   (LoadConfig app s = (Inr c, s_load) \<and>
    ConfigureLogging app c s_load = (Inr (), s_log) \<and>
    InitResources app c s_log = (Inr (), s_res) \<and>
    ConfigureRoutes app (mux_NewRouter env) c s_res = (Inr r, s_routes) \<and>
    SetMiddleware app c s_routes = (Inr hs, s_mw) \<and>
    GetServerConf app c s_mw = (Inl e, sf) \<longrightarrow>
      Run pkg env app s sched =
        \<lparr>app_state = sf,
         events = [Call OnLoadConfig, Return OnLoadConfig (Config c),
                   Call (OnConfigureLogging c), Return (OnConfigureLogging c) Nothing,
                   Call (OnInitResources c), Return (OnInitResources c) Nothing,
                   Call (OnConfigureRoutes (mux_NewRouter env) c),
                   Return (OnConfigureRoutes (mux_NewRouter env) c) (Router r),
                   Call (OnSetMiddleware c), Return (OnSetMiddleware c) (Units hs),
                   Call (OnGetServerConf c), Panics (OnGetServerConf c) e],
         main = Panicked e, listener = (\<lambda>_. Absent), wg = 0\<rparr>)"
  by (intro conjI impI; (elim conjE)?;
      simp add: Run_def Run_startup_def initApp_def andThen_def call_def ret_def initial_def)

theorem callback_fault_propagates_witness:
  "Run demo_pkg demo_env (panics_at 0) 0 [Main, Main, Listener HTTP] =
     \<lparr>app_state = 1,
      events = [Call OnLoadConfig,
                Panics OnLoadConfig ''load''],
      main = Panicked ''load'', listener = (\<lambda>_. Absent), wg = 0\<rparr> \<and>
   Run demo_pkg demo_env (panics_at 1) 0 [Main, Main, Listener HTTP] =
     \<lparr>app_state = 2,
      events = [Call OnLoadConfig,
                Return OnLoadConfig (Config 7),
                Call (OnConfigureLogging 7),
                Panics (OnConfigureLogging 7) ''logging''],
      main = Panicked ''logging'', listener = (\<lambda>_. Absent), wg = 0\<rparr> \<and>
   Run demo_pkg demo_env (panics_at 2) 0 [Main, Main, Listener HTTP] =
     \<lparr>app_state = 3,
      events = [Call OnLoadConfig,
                Return OnLoadConfig (Config 7),
                Call (OnConfigureLogging 7),
                Return (OnConfigureLogging 7) Nothing,
                Call (OnInitResources 7),
                Panics (OnInitResources 7) ''no database''],
      main = Panicked ''no database'', listener = (\<lambda>_. Absent), wg = 0\<rparr> \<and>
   Run demo_pkg demo_env (panics_at 3) 0 [Main, Main, Listener HTTP] =
     \<lparr>app_state = 4,
      events = [Call OnLoadConfig,
                Return OnLoadConfig (Config 7),
                Call (OnConfigureLogging 7),
                Return (OnConfigureLogging 7) Nothing,
                Call (OnInitResources 7),
                Return (OnInitResources 7) Nothing,
                Call (OnConfigureRoutes [] 7),
                Panics (OnConfigureRoutes [] 7) ''routes''],
      main = Panicked ''routes'', listener = (\<lambda>_. Absent), wg = 0\<rparr> \<and>
   Run demo_pkg demo_env (panics_at 4) 0 [Main, Main, Listener HTTP] =
     \<lparr>app_state = 5,
      events = [Call OnLoadConfig,
                Return OnLoadConfig (Config 7),
                Call (OnConfigureLogging 7),
                Return (OnConfigureLogging 7) Nothing,
                Call (OnInitResources 7),
                Return (OnInitResources 7) Nothing,
                Call (OnConfigureRoutes [] 7),
                Return (OnConfigureRoutes [] 7) (Router [''/health'']),
                Call (OnSetMiddleware 7),
                Panics (OnSetMiddleware 7) ''middleware''],
      main = Panicked ''middleware'', listener = (\<lambda>_. Absent), wg = 0\<rparr> \<and>
   Run demo_pkg demo_env (panics_at 5) 0 [Main, Main, Listener HTTP] =
     \<lparr>app_state = 6,
      events = [Call OnLoadConfig,
                Return OnLoadConfig (Config 7),
                Call (OnConfigureLogging 7),
                Return (OnConfigureLogging 7) Nothing,
                Call (OnInitResources 7),
                Return (OnInitResources 7) Nothing,
                Call (OnConfigureRoutes [] 7),
                Return (OnConfigureRoutes [] 7) (Router [''/health'']),
                Call (OnSetMiddleware 7),
                Return (OnSetMiddleware 7) (Units [''recovery'', ''logging'']),
                Call (OnGetServerConf 7),
                Panics (OnGetServerConf 7) ''conf''],
      main = Panicked ''conf'', listener = (\<lambda>_. Absent), wg = 0\<rparr>"
proof -
  note T = callback_fault_propagates [where pkg = demo_pkg and env = demo_env and s = 0
      and sched = "[Main, Main, Listener HTTP]" and c = 7]
  have 0: "Run demo_pkg demo_env (panics_at 0) 0 [Main, Main, Listener HTTP] =
     \<lparr>app_state = 1, events = [Call OnLoadConfig, Panics OnLoadConfig ''load''],
      main = Panicked ''load'', listener = (\<lambda>_. Absent), wg = 0\<rparr>"
    using T [where app = "panics_at 0" and e = "''load''" and sf = 1, THEN conjunct1]
    by (simp add: panics_at_def)
  have 1: "Run demo_pkg demo_env (panics_at 1) 0 [Main, Main, Listener HTTP] =
     \<lparr>app_state = 2,
      events = [Call OnLoadConfig, Return OnLoadConfig (Config 7),
                Call (OnConfigureLogging 7), Panics (OnConfigureLogging 7) ''logging''],
      main = Panicked ''logging'', listener = (\<lambda>_. Absent), wg = 0\<rparr>"
    using T [where app = "panics_at 1" and e = "''logging''" and sf = 2 and s_load = 1,
        THEN conjunct2, THEN conjunct1]
    by (simp add: panics_at_def)
  have 2: "Run demo_pkg demo_env (panics_at 2) 0 [Main, Main, Listener HTTP] =
     \<lparr>app_state = 3,
      events = [Call OnLoadConfig, Return OnLoadConfig (Config 7),
                Call (OnConfigureLogging 7), Return (OnConfigureLogging 7) Nothing,
                Call (OnInitResources 7), Panics (OnInitResources 7) ''no database''],
      main = Panicked ''no database'', listener = (\<lambda>_. Absent), wg = 0\<rparr>"
    using T [where app = "panics_at 2" and e = "''no database''" and sf = 3 and s_load = 1
        and s_log = 2, THEN conjunct2, THEN conjunct2, THEN conjunct1]
    by (simp add: panics_at_def)
  have 3: "Run demo_pkg demo_env (panics_at 3) 0 [Main, Main, Listener HTTP] =
     \<lparr>app_state = 4,
      events = [Call OnLoadConfig, Return OnLoadConfig (Config 7),
                Call (OnConfigureLogging 7), Return (OnConfigureLogging 7) Nothing,
                Call (OnInitResources 7), Return (OnInitResources 7) Nothing,
                Call (OnConfigureRoutes [] 7), Panics (OnConfigureRoutes [] 7) ''routes''],
      main = Panicked ''routes'', listener = (\<lambda>_. Absent), wg = 0\<rparr>"
    using T [where app = "panics_at 3" and e = "''routes''" and sf = 4 and s_load = 1
        and s_log = 2 and s_res = 3, THEN conjunct2, THEN conjunct2, THEN conjunct2, THEN conjunct1]
    by (simp add: panics_at_def demo_env_def)
  have 4: "Run demo_pkg demo_env (panics_at 4) 0 [Main, Main, Listener HTTP] =
     \<lparr>app_state = 5,
      events = [Call OnLoadConfig, Return OnLoadConfig (Config 7),
                Call (OnConfigureLogging 7), Return (OnConfigureLogging 7) Nothing,
                Call (OnInitResources 7), Return (OnInitResources 7) Nothing,
                Call (OnConfigureRoutes [] 7), Return (OnConfigureRoutes [] 7) (Router [''/health'']),
                Call (OnSetMiddleware 7), Panics (OnSetMiddleware 7) ''middleware''],
      main = Panicked ''middleware'', listener = (\<lambda>_. Absent), wg = 0\<rparr>"
    using T [where app = "panics_at 4" and e = "''middleware''" and sf = 5 and s_load = 1
        and s_log = 2 and s_res = 3 and r = "[''/health'']" and s_routes = 4,
        THEN conjunct2, THEN conjunct2, THEN conjunct2, THEN conjunct2, THEN conjunct1]
    by (simp add: panics_at_def demo_env_def)
  have 5: "Run demo_pkg demo_env (panics_at 5) 0 [Main, Main, Listener HTTP] =
     \<lparr>app_state = 6,
      events = [Call OnLoadConfig, Return OnLoadConfig (Config 7),
                Call (OnConfigureLogging 7), Return (OnConfigureLogging 7) Nothing,
                Call (OnInitResources 7), Return (OnInitResources 7) Nothing,
                Call (OnConfigureRoutes [] 7), Return (OnConfigureRoutes [] 7) (Router [''/health'']),
                Call (OnSetMiddleware 7), Return (OnSetMiddleware 7) (Units [''recovery'', ''logging'']),
                Call (OnGetServerConf 7), Panics (OnGetServerConf 7) ''conf''],
      main = Panicked ''conf'', listener = (\<lambda>_. Absent), wg = 0\<rparr>"
    using T [where app = "panics_at 5" and e = "''conf''" and sf = 6 and s_load = 1
        and s_log = 2 and s_res = 3 and r = "[''/health'']" and s_routes = 4
        and hs = "[''recovery'', ''logging'']" and s_mw = 5,
        THEN conjunct2, THEN conjunct2, THEN conjunct2, THEN conjunct2, THEN conjunct2]
    by (simp add: panics_at_def demo_env_def)
  from 0 1 2 3 4 5 show ?thesis
    by blast
qed

text \<open>
  C10. \<open>Run\<close> gets the package-level variables as an argument and never reads
  \<open>doRunFunc\<close>: two runs that differ only in the value assigned to it end in the same
  state, with the same trace of callback invocations and listener starts. (The
  \<open>ServeHTTP\<close> methods of the middleware units do not get the package-level variables at
  all.)
\<close>

theorem doRunFunc_unused:
  "Run (pkg\<lparr>doRunFunc := f\<rparr>) env app s sched = Run (pkg\<lparr>doRunFunc := g\<rparr>) env app s sched"
  by (simp add: Run_def Run_startup_def initApp_def)

theorem doRunFunc_unused_witness:
  "events (Run (demo_pkg\<lparr>doRunFunc := False\<rparr>) demo_env (demo_app 8080 0) 0 [Main, Main, Main]) =
   events (Run (demo_pkg\<lparr>doRunFunc := True\<rparr>) demo_env (demo_app 8080 0) 0 [Main, Main, Main])"
  using doRunFunc_unused [where pkg = demo_pkg and f = False and g = True and env = demo_env
      and app = "demo_app 8080 0" and s = 0 and sched = "[Main, Main, Main]"]
  by simp

end
